theory Spec2Isabelle
  imports Main "HOL-Library.Sublist"
begin

section \<open>Audit Vault chat service: data model\<close>

text \<open>
  The development embeds \<^verbatim>\<open>backend/src/chat/chat.service.ts\<close> (class \<^verbatim>\<open>ChatService\<close>).
  JavaScript strings are modelled as \<^typ>\<open>string\<close>, one \<^typ>\<open>char\<close> per code unit, so
  the model is exact for text whose code units are below 256. Timestamps are natural
  numbers (milliseconds). Record fields carry a prefix because two records of one
  theory cannot share a field name.
\<close>

record chat_session =
  s_id :: string
  s_userId :: string
  s_title :: string
  s_createdAt :: nat
  s_updatedAt :: nat

record chat_message =
  m_id :: string
  m_sessionId :: string
  m_role :: string
  m_content :: string
  m_createdAt :: nat

record fund =
  f_name :: string
  f_code :: string

record document =
  d_id :: string
  d_title :: string
  d_fundId :: string
  d_fund :: "fund option"
  d_type :: string
  d_status :: string
  d_periodStart :: nat
  d_periodEnd :: nat
  d_description :: "string option"

text \<open>The three tables the service touches through Prisma, rows in insertion order.\<close>

record store =
  sessions :: "chat_session list"
  chatMessages :: "chat_message list"
  documents :: "document list"

subsection \<open>Outbound request, upstream outcomes, effects\<close>

datatype json =
  JNull
  | JBool bool
  | JNum int
  | JStr string
  | JArr "json list"
  | JObj "(string \<times> json) list"

record payload_message =
  p_role :: string
  p_content :: string

record http_request =
  r_url :: string
  r_model :: string
  r_messages :: "payload_message list"
  r_headers :: "(string \<times> string) list"
  r_timeout :: nat

text \<open>What the network gives back to \<^verbatim>\<open>axios.post\<close>.\<close>

datatype http_outcome =
  TimedOut
  | NetworkDown string
  | Response nat json

text \<open>What the \<^verbatim>\<open>catch\<close> block of \<^verbatim>\<open>sendMessage\<close> can receive.\<close>

datatype failure =
  Timeout
  | TransportError string
  | BadStatus nat json
  | InvalidContent json

text \<open>
  Every write to the database, every outbound call and every line on the server
  console is recorded, in order, in the trace of the world.
\<close>

datatype effect =
  SessionInserted chat_session
  | MessageInserted chat_message
  | MessagesDeleted string
  | SessionDeleted string
  | HttpPost http_request
  | ConsoleError string failure

record world =
  db :: store
  trace :: "effect list"

datatype http_exception =
  UnauthorizedException string
  | InternalServerErrorException string

section \<open>Prisma queries used by the service\<close>

text \<open>
  Each query is embedded as the function of the tables it computes; the database is
  taken to be reachable, so a query does not fail.
\<close>

text \<open>\<^verbatim>\<open>chatSession.findFirst({ where: { id, userId } })\<close>\<close>

definition findFirstSession :: "string \<Rightarrow> string \<Rightarrow> store \<Rightarrow> chat_session option" where
  "findFirstSession sid uid st =
     find (\<lambda>s. s_id s = sid \<and> s_userId s = uid) (sessions st)"

text \<open>
  \<^verbatim>\<open>chatMessage.findMany({ where: { sessionId }, orderBy: { createdAt: 'asc' } })\<close>;
  rows with equal timestamps keep their insertion order.
\<close>

definition messagesOf :: "string \<Rightarrow> store \<Rightarrow> chat_message list" where
  "messagesOf sid st =
     sort_key m_createdAt (filter (\<lambda>m. m_sessionId m = sid) (chatMessages st))"

text \<open>\<^verbatim>\<open>chatMessage.deleteMany({ where: { sessionId } })\<close>\<close>

definition deleteManyMessages :: "string \<Rightarrow> world \<Rightarrow> world" where
  "deleteManyMessages sid w =
     w\<lparr>db := (db w)\<lparr>chatMessages := filter (\<lambda>m. m_sessionId m \<noteq> sid) (chatMessages (db w))\<rparr>,
       trace := trace w @ [MessagesDeleted sid]\<rparr>"

text \<open>\<^verbatim>\<open>chatSession.delete({ where: { id } })\<close>\<close>

definition deleteSessionRow :: "string \<Rightarrow> world \<Rightarrow> world" where
  "deleteSessionRow sid w =
     w\<lparr>db := (db w)\<lparr>sessions := filter (\<lambda>s. s_id s \<noteq> sid) (sessions (db w))\<rparr>,
       trace := trace w @ [SessionDeleted sid]\<rparr>"

text \<open>\<^verbatim>\<open>chatSession.create\<close> and \<^verbatim>\<open>chatMessage.create\<close>: the row is appended.\<close>

definition insertSession :: "chat_session \<Rightarrow> world \<Rightarrow> world" where
  "insertSession s w =
     w\<lparr>db := (db w)\<lparr>sessions := sessions (db w) @ [s]\<rparr>,
       trace := trace w @ [SessionInserted s]\<rparr>"

definition insertMessage :: "chat_message \<Rightarrow> world \<Rightarrow> world" where
  "insertMessage m w =
     w\<lparr>db := (db w)\<lparr>chatMessages := chatMessages (db w) @ [m]\<rparr>,
       trace := trace w @ [MessageInserted m]\<rparr>"

section \<open>listSessions, getSession, deleteSession\<close>

record session_summary =
  ls_id :: string
  ls_title :: string
  ls_createdAt :: nat
  ls_updatedAt :: nat
  ls_messages :: "string list"

text \<open>
  \<^verbatim>\<open>listSessions\<close>: the caller's sessions, newest first, each with the ids of its
  messages.
\<close>

definition listSessions :: "string \<Rightarrow> store \<Rightarrow> session_summary list" where
  "listSessions userId st =
     map (\<lambda>s. \<lparr>ls_id = s_id s, ls_title = s_title s, ls_createdAt = s_createdAt s,
               ls_updatedAt = s_updatedAt s,
               ls_messages = map m_id (filter (\<lambda>m. m_sessionId m = s_id s) (chatMessages st))\<rparr>)
       (rev (sort_key s_createdAt (filter (\<lambda>s. s_userId s = userId) (sessions st))))"

text \<open>\<^verbatim>\<open>getSession\<close>: the session with its messages in ascending time, or null.\<close>

definition getSession :: "string \<Rightarrow> string \<Rightarrow> store \<Rightarrow> (chat_session \<times> chat_message list) option" where
  "getSession userId sessionId st =
     (case findFirstSession sessionId userId st of
        None \<Rightarrow> None
      | Some s \<Rightarrow> Some (s, messagesOf (s_id s) st))"

text \<open>
  \<^verbatim>\<open>deleteSession\<close>: returns undefined (\<open>None\<close>) when the lookup scoped to the caller
  finds nothing, \<^verbatim>\<open>{ success: true }\<close> (\<open>Some True\<close>) otherwise.
\<close>

definition deleteSession :: "string \<Rightarrow> string \<Rightarrow> world \<Rightarrow> bool option \<times> world" where
  "deleteSession userId sessionId w =
     (case findFirstSession sessionId userId (db w) of
        None \<Rightarrow> (None, w)
      | Some s \<Rightarrow> (Some True, deleteSessionRow sessionId (deleteManyMessages sessionId w)))"

section \<open>The response sanitizer\<close>

text \<open>
  \<^verbatim>\<open>sanitizeAssistantContent\<close> is a sequence of regular-expression replacements. Each
  regular expression is embedded as the matcher it denotes. \<open>is_space\<close> is the class
  \<^verbatim>\<open>\s\<close> (also what \<^verbatim>\<open>trim\<close> removes) and \<open>is_line_terminator\<close> is what \<^verbatim>\<open>.\<close> refuses,
  both restricted to code units below 256.
\<close>

definition is_space :: "char \<Rightarrow> bool" where
  "is_space c \<longleftrightarrow> c \<in> set [CHR 0x09, CHR 0x0A, CHR 0x0B, CHR 0x0C, CHR 0x0D, CHR 0x20, CHR 0xA0]"

definition is_line_terminator :: "char \<Rightarrow> bool" where
  "is_line_terminator c \<longleftrightarrow> c = CHR 0x0A \<or> c = CHR 0x0D"

text \<open>
  The lazy group \<^verbatim>\<open>(.+?)\<close> followed by the closing marker \<open>cl\<close>: the shortest non-empty
  run of characters other than line terminators after which \<open>cl\<close> stands. The result is
  the captured group and the text after the closing marker.
\<close>

fun lazy_group :: "string \<Rightarrow> string \<Rightarrow> (string \<times> string) option" where
  "lazy_group cl [] = None"
| "lazy_group cl (c # cs) =
     (if is_line_terminator c then None
      else if prefix cl cs then Some ([c], drop (length cl) cs)
      else (case lazy_group cl cs of
              None \<Rightarrow> None
            | Some (g, r) \<Rightarrow> Some (c # g, r)))"

text \<open>A match of \<^verbatim>\<open>op(.+?)cl\<close> that starts at the head of the text.\<close>

definition match_at :: "string \<Rightarrow> string \<Rightarrow> string \<Rightarrow> (string \<times> string) option" where
  "match_at opn cl s = (if prefix opn s then lazy_group cl (drop (length opn) s) else None)"

lemma lazy_group_shorter:
  "lazy_group cl s = Some (g, r) \<Longrightarrow> length r < length s"
proof (induction s arbitrary: g r)
  case Nil
  then show ?case by simp
next
  case (Cons c cs)
  then show ?case
    by (auto split: if_splits option.splits prod.splits)
qed

lemma match_at_shorter:
  "match_at opn cl s = Some (g, r) \<Longrightarrow> length r < length s"
  unfolding match_at_def
  by (auto split: if_splits dest!: lazy_group_shorter)

text \<open>
  \<^verbatim>\<open>s.replace(/op(.+?)cl/g, '$1')\<close>: scan from the left; a match is replaced by its
  group and the scan goes on after the match, otherwise one character is copied.
\<close>

function replace_pairs :: "string \<Rightarrow> string \<Rightarrow> string \<Rightarrow> string" where
  "replace_pairs opn cl [] = []"
| "replace_pairs opn cl (c # cs) =
     (case match_at opn cl (c # cs) of
        Some (g, r) \<Rightarrow> g @ replace_pairs opn cl r
      | None \<Rightarrow> c # replace_pairs opn cl cs)"
  by pat_completeness auto
termination
  by (relation "measure (\<lambda>(opn, cl, s). length s)") (auto dest: match_at_shorter)

text \<open>\<^verbatim>\<open>line.replace(/^\s*#{1,6}\s+/, '')\<close>\<close>

definition strip_heading :: "string \<Rightarrow> string" where
  "strip_heading line =
     (let r = dropWhile is_space line;
          h = takeWhile (\<lambda>c. c = CHR ''#'') r;
          t = dropWhile (\<lambda>c. c = CHR ''#'') r
      in if 1 \<le> length h \<and> length h \<le> 6 \<and> (case t of [] \<Rightarrow> False | c # _ \<Rightarrow> is_space c)
         then dropWhile is_space t
         else line)"

text \<open>\<^verbatim>\<open>line.replace(/^\s*-\s+/, '')\<close>\<close>

definition strip_dash :: "string \<Rightarrow> string" where
  "strip_dash line =
     (case dropWhile is_space line of
        c # t \<Rightarrow>
          if c = CHR ''-'' \<and> (case t of [] \<Rightarrow> False | d # _ \<Rightarrow> is_space d)
          then dropWhile is_space t
          else line
      | [] \<Rightarrow> line)"

text \<open>\<^verbatim>\<open>s.split('\n')\<close> and \<^verbatim>\<open>lines.join(sep)\<close>\<close>

fun split_lines :: "string \<Rightarrow> string list" where
  "split_lines [] = [[]]"
| "split_lines (c # cs) =
     (if c = CHR 0x0A then [] # split_lines cs
      else (case split_lines cs of
              l # ls \<Rightarrow> (c # l) # ls
            | [] \<Rightarrow> [[c]]))"

fun join :: "string \<Rightarrow> string list \<Rightarrow> string" where
  "join sep [] = []"
| "join sep [l] = l"
| "join sep (l # ls) = l @ sep @ join sep ls"

definition trim :: "string \<Rightarrow> string" where
  "trim s = rev (dropWhile is_space (rev (dropWhile is_space s)))"

definition sanitizeAssistantContent :: "string \<Rightarrow> string" where
  "sanitizeAssistantContent content =
     (if content = [] then content
      else
        let cleaned = replace_pairs ''**'' ''**'' content;
            cleaned = replace_pairs ''*'' ''*'' cleaned;
            cleaned = replace_pairs ''_'' ''_'' cleaned;
            lines = map (\<lambda>line. strip_dash (strip_heading line)) (split_lines cleaned)
        in trim (join [CHR 0x0A] lines))"

subsection \<open>What the sanitizer finds in a text\<close>



text \<open>The same, computed: the pattern \<^verbatim>\<open>op(.+?)cl\<close> matches at some position.\<close>

fun has_match :: "string \<Rightarrow> string \<Rightarrow> string \<Rightarrow> bool" where
  "has_match opn cl [] = False"
| "has_match opn cl (c # cs) = (match_at opn cl (c # cs) \<noteq> None \<or> has_match opn cl cs)"



section \<open>sendMessage\<close>

record user =
  u_id :: string
  u_email :: string
  u_role :: string
  u_name :: string

text \<open>\<^verbatim>\<open>SendChatDto\<close>: \<open>None\<close> is an absent (undefined or null) optional field.\<close>

record send_chat_dto =
  message :: string
  sessionId :: "string option"
  documentIds :: "string list option"

record chat_service =
  openRouterApiKey :: string
  openRouterModel :: string

text \<open>The constructor reads the two settings once; \<^verbatim>\<open>??\<close> supplies the defaults.\<close>

definition newChatService :: "(string \<Rightarrow> string option) \<Rightarrow> chat_service" where
  "newChatService config =
     \<lparr>openRouterApiKey = (case config ''OPENROUTER_API_KEY'' of None \<Rightarrow> [] | Some k \<Rightarrow> k),
      openRouterModel = (case config ''OPENROUTER_MODEL'' of None \<Rightarrow> ''openai/gpt-4o-mini'' | Some m \<Rightarrow> m)\<rparr>"

text \<open>
  What lies outside the repository and is decided elsewhere during one call: the ids and
  timestamps the database gives to the rows it creates, the answer of the network to the
  outbound request, and \<^verbatim>\<open>Date.prototype.toISOString\<close>.
\<close>

record env =
  genSessionId :: string
  nowSession :: nat
  genUserMessageId :: string
  nowUserMessage :: nat
  genAssistantMessageId :: string
  nowAssistantMessage :: nat
  post :: "http_request \<Rightarrow> http_outcome"
  toISOString :: "nat \<Rightarrow> string"

text \<open>
  The repository holds two revisions of the service. They differ in the text of the
  system prompt and in that the later one passes the reply through
  \<open>sanitizeAssistantContent\<close> before storing it.
\<close>

datatype revision = Initial | Sanitizing

definition nl :: string where
  "nl = [CHR 0x0A]"

definition systemPrompt :: "revision \<Rightarrow> string" where
  "systemPrompt rv =
     (case rv of
        Initial \<Rightarrow>
          ''You are an AI assistant helping with investment fund compliance documents inside an internal tool called Audit Vault.'' @ nl @
          ''- Be precise and conservative: never invent document contents.'' @ nl @
          ''- When asked about compliance, base your answers ONLY on the provided document metadata and user messages.'' @ nl @
          ''- If something is unclear or not in the data, explicitly say what is missing.''
      | Sanitizing \<Rightarrow>
          ''You are an AI assistant helping with investment fund compliance documents inside an internal tool called Audit Vault.'' @ nl @
          ''Write responses in clear plain text without markdown formatting (no asterisks, headings, or bullet syntax).'' @ nl @
          ''Be concise and structured using short paragraphs.'' @ nl @
          ''Be precise and conservative: never invent document contents.'' @ nl @
          ''When asked about compliance, base your answers ONLY on the provided document metadata and user messages.'' @ nl @
          ''If something is unclear or not in the data, explicitly say what is missing.'')"

definition postprocess :: "revision \<Rightarrow> string \<Rightarrow> string" where
  "postprocess rv raw = (case rv of Initial \<Rightarrow> raw | Sanitizing \<Rightarrow> sanitizeAssistantContent raw)"

subsection \<open>Resolve or create the chat session\<close>

text \<open>\<^verbatim>\<open>dto.message.slice(0, 80) || 'New Chat'\<close>\<close>

definition newSessionTitle :: "string \<Rightarrow> string" where
  "newSessionTitle msg = (if take 80 msg = [] then ''New Chat'' else take 80 msg)"

definition createSession :: "env \<Rightarrow> user \<Rightarrow> send_chat_dto \<Rightarrow> world \<Rightarrow> string \<times> string \<times> world" where
  "createSession e usr dto w =
     (let sessionTitle = newSessionTitle (message dto);
          created = \<lparr>s_id = genSessionId e, s_userId = u_id usr, s_title = sessionTitle,
                     s_createdAt = nowSession e, s_updatedAt = nowSession e\<rparr>
      in (s_id created, sessionTitle, insertSession created w))"

text \<open>
  An absent or empty \<^verbatim>\<open>sessionId\<close> is falsy; one that the lookup scoped to the caller
  does not find is dropped. In all three cases a session is created.
\<close>

definition resolveSession :: "env \<Rightarrow> user \<Rightarrow> send_chat_dto \<Rightarrow> world \<Rightarrow> string \<times> string \<times> world" where
  "resolveSession e usr dto w =
     (case sessionId dto of
        None \<Rightarrow> createSession e usr dto w
      | Some sid \<Rightarrow>
          if sid = [] then createSession e usr dto w
          else (case findFirstSession sid (u_id usr) (db w) of
                  None \<Rightarrow> createSession e usr dto w
                | Some existing \<Rightarrow> (sid, s_title existing, w)))"

subsection \<open>Document context\<close>

text \<open>
  The en dash of the template is a code unit above 255; it is written here as the three
  bytes of its UTF-8 encoding.
\<close>

definition en_dash :: string where
  "en_dash = [CHR 0xE2, CHR 0x80, CHR 0x93]"

definition fundLabel :: "document \<Rightarrow> string" where
  "fundLabel doc =
     (case d_fund doc of
        Some f \<Rightarrow> f_name f @ '' ('' @ f_code f @ '')''
      | None \<Rightarrow> d_fundId doc)"

definition renderDocument :: "env \<Rightarrow> document \<Rightarrow> string" where
  "renderDocument e doc =
     ''- Title: '' @ d_title doc @ nl @
     ''  Fund: '' @ fundLabel doc @ nl @
     ''  Type: '' @ d_type doc @ nl @
     ''  Status: '' @ d_status doc @ nl @
     ''  Period: '' @ toISOString e (d_periodStart doc) @ '' '' @ en_dash @ '' '' @
        toISOString e (d_periodEnd doc) @ nl @
     ''  Description: '' @ (case d_description doc of None \<Rightarrow> ''n/a'' | Some t \<Rightarrow> t) @ nl"

text \<open>\<^verbatim>\<open>document.findMany({ where: { id: { in: ids } } })\<close>\<close>

definition findDocuments :: "string list \<Rightarrow> store \<Rightarrow> document list" where
  "findDocuments ids st = filter (\<lambda>d. d_id d \<in> set ids) (documents st)"

definition renderContext :: "env \<Rightarrow> document list \<Rightarrow> string" where
  "renderContext e docs =
     ''The user has selected the following compliance documents to discuss:'' @ nl @
     join nl (map (renderDocument e) docs) @ nl @
     ''Use ONLY this information plus the conversation history to answer questions, and clearly say when information is not available in these documents.''"

definition loadDocumentsContext :: "env \<Rightarrow> send_chat_dto \<Rightarrow> store \<Rightarrow> string" where
  "loadDocumentsContext e dto st =
     (case documentIds dto of
        None \<Rightarrow> []
      | Some ids \<Rightarrow>
          if length ids > 0 then
            (let docs = findDocuments ids st
             in if length docs > 0 then renderContext e docs else [])
          else [])"

subsection \<open>Payload\<close>

definition forwardMessage :: "chat_message \<Rightarrow> payload_message" where
  "forwardMessage m =
     \<lparr>p_role = (if m_role m = ''assistant'' then ''assistant'' else ''user''),
      p_content = m_content m\<rparr>"

definition buildPayload :: "revision \<Rightarrow> string \<Rightarrow> chat_message list \<Rightarrow> payload_message list" where
  "buildPayload rv documentsContext recentMessages =
     [\<lparr>p_role = ''system'', p_content = systemPrompt rv\<rparr>] @
     (if documentsContext \<noteq> [] then [\<lparr>p_role = ''system'', p_content = documentsContext\<rparr>] else []) @
     map forwardMessage recentMessages"

definition buildRequest :: "chat_service \<Rightarrow> payload_message list \<Rightarrow> http_request" where
  "buildRequest svc messagesPayload =
     \<lparr>r_url = ''https://openrouter.ai/api/v1/chat/completions'',
      r_model = openRouterModel svc,
      r_messages = messagesPayload,
      r_headers =
        [(''Authorization'', ''Bearer '' @ openRouterApiKey svc),
         (''Content-Type'', ''application/json''),
         (''HTTP-Referer'', ''http://localhost:3001''),
         (''X-Title'', ''Audit Vault Chat'')],
      r_timeout = 30000\<rparr>"

subsection \<open>The provider call and its reply\<close>

text \<open>
  \<^verbatim>\<open>axios.post\<close> resolves with the parsed body on a status from 200 to 299 and rejects on
  a timeout, a transport error and every other status.
\<close>

definition axiosPost :: "env \<Rightarrow> http_request \<Rightarrow> failure + json" where
  "axiosPost e req =
     (case post e req of
        TimedOut \<Rightarrow> Inl Timeout
      | NetworkDown reason \<Rightarrow> Inl (TransportError reason)
      | Response status body \<Rightarrow>
          if 200 \<le> status \<and> status < 300 then Inr body else Inl (BadStatus status body))"

text \<open>
  Optional chaining: \<open>None\<close> is undefined. \<^verbatim>\<open>v?.name\<close> is undefined when \<open>v\<close> is null or
  undefined; the names read here (choices, message, content) are properties of objects
  only. \<^verbatim>\<open>v?.[0]\<close> reads the first element of an array, the first character of a
  string, the property "0" of an object.
\<close>

definition optField :: "string \<Rightarrow> json option \<Rightarrow> json option" where
  "optField name v =
     (case v of
        Some (JObj kvs) \<Rightarrow> map_of kvs name
      | _ \<Rightarrow> None)"

definition optFirst :: "json option \<Rightarrow> json option" where
  "optFirst v =
     (case v of
        Some (JArr xs) \<Rightarrow> (case xs of [] \<Rightarrow> None | x # _ \<Rightarrow> Some x)
      | Some (JStr s) \<Rightarrow> (case s of [] \<Rightarrow> None | c # _ \<Rightarrow> Some (JStr [c]))
      | Some (JObj kvs) \<Rightarrow> map_of kvs ''0''
      | _ \<Rightarrow> None)"

text \<open>
  \<^verbatim>\<open>response.data?.choices?.[0]?.message?.content ?? 'Sorry, I could not generate a response.'\<close>
\<close>

definition rawAssistantContent :: "json \<Rightarrow> json" where
  "rawAssistantContent data =
     (case optField ''content'' (optField ''message'' (optFirst (optField ''choices'' (Some data)))) of
        None \<Rightarrow> JStr ''Sorry, I could not generate a response.''
      | Some JNull \<Rightarrow> JStr ''Sorry, I could not generate a response.''
      | Some v \<Rightarrow> v)"

subsection \<open>The service method\<close>

record send_result =
  res_sessionId :: string
  res_sessionTitle :: string
  res_userMessage :: chat_message
  res_assistantMessage :: chat_message

text \<open>The \<^verbatim>\<open>catch\<close> block: log the error, throw the fixed exception.\<close>

definition onError :: "failure \<Rightarrow> world \<Rightarrow> (http_exception + send_result) \<times> world" where
  "onError err w =
     (Inl (InternalServerErrorException
             ''Failed to get a response from the AI assistant. Please try again later.''),
      w\<lparr>trace := trace w @ [ConsoleError ''OpenRouter chat error'' err]\<rparr>)"

text \<open>
  The \<^verbatim>\<open>try\<close> block. A content that is not a string makes the block throw (Prisma
  refuses it for a text column; the sanitizer calls \<^verbatim>\<open>replace\<close> on it), which the
  \<^verbatim>\<open>catch\<close> block receives like a failure of the call.
\<close>

definition callProvider ::
  "revision \<Rightarrow> env \<Rightarrow> http_request \<Rightarrow> string \<Rightarrow> string \<Rightarrow> chat_message \<Rightarrow> world
     \<Rightarrow> (http_exception + send_result) \<times> world" where
  "callProvider rv e request sid sessionTitle userMessage w =
     (let w' = w\<lparr>trace := trace w @ [HttpPost request]\<rparr>
      in case axiosPost e request of
           Inl err \<Rightarrow> onError err w'
         | Inr data \<Rightarrow>
             (case rawAssistantContent data of
                JStr raw \<Rightarrow>
                  (let assistantMessage =
                         \<lparr>m_id = genAssistantMessageId e, m_sessionId = sid, m_role = ''assistant'',
                          m_content = postprocess rv raw, m_createdAt = nowAssistantMessage e\<rparr>
                   in (Inr \<lparr>res_sessionId = sid, res_sessionTitle = sessionTitle,
                             res_userMessage = userMessage,
                             res_assistantMessage = assistantMessage\<rparr>,
                       insertMessage assistantMessage w'))
              | v \<Rightarrow> onError (InvalidContent v) w'))"

definition sendMessage ::
  "revision \<Rightarrow> chat_service \<Rightarrow> env \<Rightarrow> user \<Rightarrow> send_chat_dto \<Rightarrow> world
     \<Rightarrow> (http_exception + send_result) \<times> world" where
  "sendMessage rv svc e usr dto w =
     (if openRouterApiKey svc = [] then
        (Inl (UnauthorizedException ''OpenRouter API key is not configured on the server''), w)
      else
        (case resolveSession e usr dto w of
           (sid, sessionTitle, w1) \<Rightarrow>
             (let userMessage =
                    \<lparr>m_id = genUserMessageId e, m_sessionId = sid, m_role = ''user'',
                     m_content = message dto, m_createdAt = nowUserMessage e\<rparr>;
                  w2 = insertMessage userMessage w1;
                  recentMessages = take 20 (messagesOf sid (db w2));
                  documentsContext = loadDocumentsContext e dto (db w2);
                  messagesPayload = buildPayload rv documentsContext recentMessages
              in callProvider rv e (buildRequest svc messagesPayload) sid sessionTitle userMessage w2)))"

section \<open>Observing a run\<close>

text \<open>The outbound requests recorded in a trace, in order.\<close>

fun requestsOf :: "effect list \<Rightarrow> http_request list" where
  "requestsOf [] = []"
| "requestsOf (HttpPost r # evs) = r # requestsOf evs"
| "requestsOf (_ # evs) = requestsOf evs"

text \<open>
  Names for two values that \<open>sendMessage\<close> computes on the way: the row it inserts for
  the incoming message, once the session id is known, and the request it posts, once
  that row is stored.
\<close>

definition userMessageOf :: "env \<Rightarrow> send_chat_dto \<Rightarrow> string \<Rightarrow> chat_message" where
  "userMessageOf e dto sid =
     \<lparr>m_id = genUserMessageId e, m_sessionId = sid, m_role = ''user'',
      m_content = message dto, m_createdAt = nowUserMessage e\<rparr>"

definition requestFor :: "revision \<Rightarrow> chat_service \<Rightarrow> env \<Rightarrow> send_chat_dto \<Rightarrow> string \<Rightarrow> store \<Rightarrow> http_request" where
  "requestFor rv svc e dto sid st =
     buildRequest svc (buildPayload rv (loadDocumentsContext e dto st) (take 20 (messagesOf sid st)))"

text \<open>
  The title as the specification words it: the first 80 characters of the trimmed
  message, or "New Chat" when nothing is left after trimming.
\<close>

definition titleOfTrimmed :: "string \<Rightarrow> string" where
  "titleOfTrimmed m = (if trim m = [] then ''New Chat'' else take 80 (trim m))"


text \<open>
  The history window as the specification words it: the most recent \<open>n\<close> messages of the
  session, in ascending time.
\<close>

definition mostRecent :: "nat \<Rightarrow> string \<Rightarrow> store \<Rightarrow> chat_message list" where
  "mostRecent n sid st = (let ms = messagesOf sid st in drop (length ms - n) ms)"

section \<open>A small world for concrete runs\<close>

text \<open>
  Two users, alice and bob, with one session each; two documents, of which only the
  first has a fund record and a description.
\<close>

definition alice :: user where
  "alice = \<lparr>u_id = ''alice'', u_email = ''alice@funds.com'', u_role = ''AUDITOR'', u_name = ''Alice''\<rparr>"

definition msg :: "string \<Rightarrow> string \<Rightarrow> string \<Rightarrow> string \<Rightarrow> nat \<Rightarrow> chat_message" where
  "msg i sid r c t = \<lparr>m_id = i, m_sessionId = sid, m_role = r, m_content = c, m_createdAt = t\<rparr>"

definition docA :: document where
  "docA = \<lparr>d_id = ''docA'', d_title = ''Q3 report'', d_fundId = ''f1'',
            d_fund = Some \<lparr>f_name = ''Alpha'', f_code = ''ALP''\<rparr>,
            d_type = ''QUARTERLY_REPORT'', d_status = ''APPROVED'',
            d_periodStart = 1, d_periodEnd = 2, d_description = Some ''third quarter''\<rparr>"

definition docB :: document where
  "docB = \<lparr>d_id = ''docB'', d_title = ''Annual'', d_fundId = ''f2'', d_fund = None,
            d_type = ''ANNUAL_REPORT'', d_status = ''PENDING'',
            d_periodStart = 3, d_periodEnd = 4, d_description = None\<rparr>"

definition world0 :: world where
  "world0 =
     \<lparr>db = \<lparr>sessions =
               [\<lparr>s_id = ''sa'', s_userId = ''alice'', s_title = ''Alice chat'', s_createdAt = 1, s_updatedAt = 1\<rparr>,
                \<lparr>s_id = ''sb'', s_userId = ''bob'', s_title = ''Bob chat'', s_createdAt = 2, s_updatedAt = 2\<rparr>],
             chatMessages =
               [msg ''m1'' ''sa'' ''user'' ''hello'' 3,
                msg ''m2'' ''sb'' ''user'' ''secret'' 4,
                msg ''m3'' ''sa'' ''assistant'' ''hi'' 5,
                msg ''m4'' ''sa'' ''tool'' ''raw'' 6],
             documents = [docA, docB]\<rparr>,
      trace = []\<rparr>"

definition okBody :: json where
  "okBody = JObj [(''choices'', JArr [JObj [(''message'', JObj [(''content'', JStr ''**Done**'')])]])]"

definition env0 :: "http_outcome \<Rightarrow> env" where
  "env0 outcome =
     \<lparr>genSessionId = ''s-new'', nowSession = 10,
      genUserMessageId = ''m-user'', nowUserMessage = 11,
      genAssistantMessageId = ''m-asst'', nowAssistantMessage = 12,
      post = (\<lambda>_. outcome),
      toISOString = (\<lambda>t. ''T'' @ replicate t CHR ''+'')\<rparr>"

definition service0 :: chat_service where
  "service0 = newChatService [''OPENROUTER_API_KEY'' \<mapsto> ''sk-test'']"

definition dtoBlank :: send_chat_dto where
  "dtoBlank = \<lparr>message = ''  hi'', sessionId = None, documentIds = None\<rparr>"

definition dtoDocs :: send_chat_dto where
  "dtoDocs = \<lparr>message = ''Summarize Q3'', sessionId = Some ''sa'', documentIds = Some [''docA'', ''gone'']\<rparr>"

text \<open>
  A session that already holds twenty messages, written at times 1 to 20, to which a
  twenty-first is sent at time 21; \<open>store21\<close> is the database once that message is stored.
\<close>

definition world20 :: world where
  "world20 =
     \<lparr>db = \<lparr>sessions =
               [\<lparr>s_id = ''sa'', s_userId = ''alice'', s_title = ''Alice chat'', s_createdAt = 0, s_updatedAt = 0\<rparr>],
             chatMessages =
               map (\<lambda>i. msg (replicate i CHR ''m'') ''sa'' ''user'' (replicate i CHR ''x'') i) [1..<21],
             documents = []\<rparr>,
      trace = []\<rparr>"

definition env21 :: env where
  "env21 = (env0 TimedOut)\<lparr>nowUserMessage := 21\<rparr>"

definition dtoNewest :: send_chat_dto where
  "dtoNewest = \<lparr>message = ''newest'', sessionId = Some ''sa'', documentIds = None\<rparr>"

definition store21 :: store where
  "store21 = (db world20)\<lparr>chatMessages := chatMessages (db world20) @ [userMessageOf env21 dtoNewest ''sa'']\<rparr>"

definition bobSession :: chat_session where
  "bobSession = \<lparr>s_id = ''sb'', s_userId = ''bob'', s_title = ''Bob chat'', s_createdAt = 2, s_updatedAt = 2\<rparr>"

definition dtoForeign :: send_chat_dto where
  "dtoForeign = \<lparr>message = ''peek'', sessionId = Some ''sb'', documentIds = None\<rparr>"

section \<open>Deleting a session\<close>

lemma findFirstSession_None_iff:
  "findFirstSession sid uid st = None \<longleftrightarrow>
     \<not> (\<exists>s \<in> set (sessions st). s_id s = sid \<and> s_userId s = uid)"
  unfolding findFirstSession_def by (auto simp: find_None_iff)

lemma findFirstSession_SomeD:
  "findFirstSession sid uid st = Some s \<Longrightarrow> s \<in> set (sessions st) \<and> s_id s = sid \<and> s_userId s = uid"
  unfolding findFirstSession_def by (auto simp: find_Some_iff)

text \<open>
  C8. When the caller owns a session with the given id, \<open>deleteSession\<close> reports success,
  leaves exactly the messages of other session ids and the session rows of other ids,
  and \<open>getSession\<close> for that id then returns nothing, for every user. When no session
  with that id is owned by the caller (the id is unknown or the session is another
  user's), \<open>deleteSession\<close> returns undefined and the world, database and trace, is the
  one it was given.
\<close>

theorem deleteSession_removes_or_noop:
  "((\<exists>s \<in> set (sessions (db w)). s_id s = sid \<and> s_userId s = uid) \<longrightarrow>
      fst (deleteSession uid sid w) = Some True \<and>
      chatMessages (db (snd (deleteSession uid sid w))) =
        filter (\<lambda>m. m_sessionId m \<noteq> sid) (chatMessages (db w)) \<and>
      sessions (db (snd (deleteSession uid sid w))) =
        filter (\<lambda>s. s_id s \<noteq> sid) (sessions (db w)) \<and>
      messagesOf sid (db (snd (deleteSession uid sid w))) = [] \<and>
      (\<forall>u. getSession u sid (db (snd (deleteSession uid sid w))) = None)) \<and>
   (\<not> (\<exists>s \<in> set (sessions (db w)). s_id s = sid \<and> s_userId s = uid) \<longrightarrow>
      deleteSession uid sid w = (None, w))"
proof (cases "findFirstSession sid uid (db w)")
  case None
  have foreign: "\<not> (\<exists>s \<in> set (sessions (db w)). s_id s = sid \<and> s_userId s = uid)"
    using None by (simp add: findFirstSession_None_iff)
  have "deleteSession uid sid w = (None, w)"
    by (simp add: deleteSession_def None)
  with foreign show ?thesis by simp
next
  case (Some s)
  let ?w = "deleteSessionRow sid (deleteManyMessages sid w)"
  have owned: "\<exists>s \<in> set (sessions (db w)). s_id s = sid \<and> s_userId s = uid"
    using findFirstSession_SomeD[OF Some] by blast
  have res: "deleteSession uid sid w = (Some True, ?w)"
    by (simp add: deleteSession_def Some)
  have msgs: "chatMessages (db ?w) = filter (\<lambda>m. m_sessionId m \<noteq> sid) (chatMessages (db w))"
    by (simp add: deleteSessionRow_def deleteManyMessages_def)
  have rows: "sessions (db ?w) = filter (\<lambda>s. s_id s \<noteq> sid) (sessions (db w))"
    by (simp add: deleteSessionRow_def deleteManyMessages_def)
  have none: "messagesOf sid (db ?w) = []"
    by (simp add: messagesOf_def msgs)
  have gone: "getSession u sid (db ?w) = None" for u
  proof -
    have "findFirstSession sid u (db ?w) = None"
      by (simp add: findFirstSession_None_iff rows)
    then show ?thesis by (simp add: getSession_def)
  qed
  show ?thesis
    using owned res msgs rows none gone by simp
qed

theorem deleteSession_removes_or_noop_witness:
  "fst (deleteSession ''alice'' ''sa'' world0) = Some True \<and>
   map m_id (chatMessages (db (snd (deleteSession ''alice'' ''sa'' world0)))) = [''m2''] \<and>
   map s_id (sessions (db (snd (deleteSession ''alice'' ''sa'' world0)))) = [''sb''] \<and>
   getSession ''alice'' ''sa'' (db (snd (deleteSession ''alice'' ''sa'' world0))) = None \<and>
   deleteSession ''alice'' ''sb'' world0 = (None, world0) \<and>
   deleteSession ''alice'' ''nope'' world0 = (None, world0)"
  using deleteSession_removes_or_noop[of world0 "''sa''" "''alice''"]
    deleteSession_removes_or_noop[of world0 "''sb''" "''alice''"]
    deleteSession_removes_or_noop[of world0 "''nope''" "''alice''"]
  by (simp add: world0_def msg_def)

section \<open>The credential check\<close>

text \<open>
  C7. When the configuration has no provider credential (the setting is absent, or
  present and empty), \<open>sendMessage\<close> throws the
  unauthorized exception and returns the world it was given: no row is written and the
  trace gains no outbound call, whatever the request, the user and the environment.
\<close>

theorem sendMessage_missing_credential:
  "config ''OPENROUTER_API_KEY'' = None \<or> config ''OPENROUTER_API_KEY'' = Some [] \<Longrightarrow>
   sendMessage rv (newChatService config) e usr dto w =
     (Inl (UnauthorizedException ''OpenRouter API key is not configured on the server''), w)"
  by (auto simp add: sendMessage_def newChatService_def)

theorem sendMessage_missing_credential_witness:
  "sendMessage Sanitizing (newChatService Map.empty) (env0 (Response 200 okBody)) alice
     \<lparr>message = ''Summarize Q3'', sessionId = None, documentIds = Some [''docA'']\<rparr> world0 =
     (Inl (UnauthorizedException ''OpenRouter API key is not configured on the server''), world0)"
  using sendMessage_missing_credential[of Map.empty Sanitizing "env0 (Response 200 okBody)" alice
      "\<lparr>message = ''Summarize Q3'', sessionId = None, documentIds = Some [''docA'']\<rparr>" world0]
  by simp

section \<open>Properties of the sanitizer\<close>

lemma lazy_group_sound:
  "lazy_group cl s = Some (g, r) \<Longrightarrow>
     s = g @ cl @ r \<and> g \<noteq> [] \<and> (\<forall>c \<in> set g. \<not> is_line_terminator c)"
proof (induction s arbitrary: g r)
  case Nil
  then show ?case by simp
next
  case (Cons c cs)
  show ?case
  proof (cases "prefix cl cs")
    case True
    then have "cs = cl @ drop (length cl) cs"
      by (auto simp: prefix_def)
    with Cons.prems True show ?thesis
      by (auto split: if_splits)
  next
    case False
    with Cons.prems obtain g' where g': "lazy_group cl cs = Some (g', r)" "g = c # g'"
      and c: "\<not> is_line_terminator c"
      by (auto split: if_splits option.splits)
    from Cons.IH[OF g'(1)] g'(2) c show ?thesis by simp
  qed
qed


lemma match_at_shape:
  "match_at opn cl s = Some (g, r) \<Longrightarrow> s = opn @ g @ cl @ r \<and> g \<noteq> []"
  unfolding match_at_def
  by (auto split: if_splits dest!: lazy_group_sound simp: prefix_def)





lemma replace_pairs_length: "length (replace_pairs opn cl s) \<le> length s"
proof (induction s rule: length_induct)
  case (1 s)
  show ?case
  proof (cases s)
    case Nil
    then show ?thesis by simp
  next
    case (Cons c cs)
    show ?thesis
    proof (cases "match_at opn cl (c # cs)")
      case None
      with 1 Cons show ?thesis by simp
    next
      case (Some a)
      obtain g r where a: "a = (g, r)" by (cases a)
      from match_at_shape[OF Some[unfolded a]]
      have len: "length (c # cs) = length opn + length g + length cl + length r"
        by (metis length_append add.assoc)
      then have "length r < length s" using Cons match_at_shorter[OF Some[unfolded a]] by simp
      with 1 have "length (replace_pairs opn cl r) \<le> length r" by simp
      with len Cons Some a show ?thesis by simp
    qed
  qed
qed

lemma replace_pairs_shrinks:
  "opn \<noteq> [] \<Longrightarrow> has_match opn cl s \<Longrightarrow> length (replace_pairs opn cl s) < length s"
proof (induction s)
  case Nil
  then show ?case by simp
next
  case (Cons c cs)
  show ?case
  proof (cases "match_at opn cl (c # cs)")
    case None
    with Cons show ?thesis by simp
  next
    case (Some a)
    obtain g r where a: "a = (g, r)" by (cases a)
    obtain x xs where opn: "opn = x # xs" using Cons.prems(1) by (cases opn) auto
    from match_at_shape[OF Some[unfolded a]]
    have "length (c # cs) = length opn + length g + length cl + length r"
      by (metis length_append add.assoc)
    moreover have "length (replace_pairs opn cl r) \<le> length r" by (rule replace_pairs_length)
    ultimately show ?thesis using Some a opn by simp
  qed
qed

lemma replace_pairs_no_match: "\<not> has_match opn cl s \<Longrightarrow> replace_pairs opn cl s = s"
  by (induction s) (auto split: option.splits)

lemma replace_pairs_fixed_iff:
  "opn \<noteq> [] \<Longrightarrow> replace_pairs opn cl s = s \<longleftrightarrow> \<not> has_match opn cl s"
  using replace_pairs_shrinks[of opn cl s] replace_pairs_no_match[of opn cl s] by auto





















section \<open>How a call of sendMessage unfolds\<close>

lemma requestsOf_append: "requestsOf (xs @ ys) = requestsOf xs @ requestsOf ys"
  by (induction xs rule: requestsOf.induct) simp_all

lemma createSession_eq:
  "createSession e usr dto w =
     (genSessionId e, newSessionTitle (message dto),
      insertSession \<lparr>s_id = genSessionId e, s_userId = u_id usr, s_title = newSessionTitle (message dto),
                     s_createdAt = nowSession e, s_updatedAt = nowSession e\<rparr> w)"
  by (simp add: createSession_def Let_def)

lemma resolveSession_cases:
  obtains (existing) sid s where "sessionId dto = Some sid" "sid \<noteq> []"
      "findFirstSession sid (u_id usr) (db w) = Some s"
      "resolveSession e usr dto w = (sid, s_title s, w)"
  | (created) "resolveSession e usr dto w = createSession e usr dto w"
      "sessionId dto = None \<or> sessionId dto = Some [] \<or>
       (\<exists>sid. sessionId dto = Some sid \<and> findFirstSession sid (u_id usr) (db w) = None)"
  unfolding resolveSession_def
  by (cases "sessionId dto"; cases "findFirstSession (the (sessionId dto)) (u_id usr) (db w)")
     (auto split: if_splits)

lemma sendMessage_unfold:
  assumes "openRouterApiKey svc \<noteq> []" "resolveSession e usr dto w = (sid, title, w1)"
  shows "sendMessage rv svc e usr dto w =
     callProvider rv e
       (buildRequest svc
          (buildPayload rv (loadDocumentsContext e dto (db (insertMessage (userMessageOf e dto sid) w1)))
             (take 20 (messagesOf sid (db (insertMessage (userMessageOf e dto sid) w1))))))
       sid title (userMessageOf e dto sid) (insertMessage (userMessageOf e dto sid) w1)"
  using assms by (simp add: sendMessage_def Let_def userMessageOf_def)

lemma callProvider_cases:
  obtains (failed) err where
      "callProvider rv e req sid title um w =
         (Inl (InternalServerErrorException
                 ''Failed to get a response from the AI assistant. Please try again later.''),
          w\<lparr>trace := trace w @ [HttpPost req, ConsoleError ''OpenRouter chat error'' err]\<rparr>)"
  | (answered) am where "m_sessionId am = sid" "m_role am = ''assistant''"
      "callProvider rv e req sid title um w =
         (Inr \<lparr>res_sessionId = sid, res_sessionTitle = title, res_userMessage = um,
               res_assistantMessage = am\<rparr>,
          w\<lparr>db := (db w)\<lparr>chatMessages := chatMessages (db w) @ [am]\<rparr>,
            trace := trace w @ [HttpPost req, MessageInserted am]\<rparr>)"
proof (cases "axiosPost e req")
  case (Inl err)
  then show ?thesis
    by (intro failed[of err]) (simp add: callProvider_def onError_def Let_def)
next
  case (Inr data)
  show ?thesis
  proof (cases "rawAssistantContent data")
    case (JStr raw)
    with Inr show ?thesis
      by (intro answered[of "\<lparr>m_id = genAssistantMessageId e, m_sessionId = sid, m_role = ''assistant'',
                          m_content = postprocess rv raw, m_createdAt = nowAssistantMessage e\<rparr>"])
         (simp_all add: callProvider_def Let_def insertMessage_def)
  qed (use Inr in \<open>intro failed[of "InvalidContent (rawAssistantContent data)"],
        simp add: callProvider_def onError_def Let_def\<close>)+
qed


lemma sendMessage_run:
  assumes key: "openRouterApiKey svc \<noteq> []"
    and res: "resolveSession e usr dto w = (sid, title, w1)"
  obtains (failed) err where
      "sendMessage rv svc e usr dto w =
         (Inl (InternalServerErrorException
                 ''Failed to get a response from the AI assistant. Please try again later.''),
          w1\<lparr>db := (db w1)\<lparr>chatMessages := chatMessages (db w1) @ [userMessageOf e dto sid]\<rparr>,
             trace := trace w1 @
               [MessageInserted (userMessageOf e dto sid),
                HttpPost (requestFor rv svc e dto sid
                           ((db w1)\<lparr>chatMessages := chatMessages (db w1) @ [userMessageOf e dto sid]\<rparr>)),
                ConsoleError ''OpenRouter chat error'' err]\<rparr>)"
  | (answered) am where "m_sessionId am = sid" "m_role am = ''assistant''"
      "sendMessage rv svc e usr dto w =
         (Inr \<lparr>res_sessionId = sid, res_sessionTitle = title,
               res_userMessage = userMessageOf e dto sid, res_assistantMessage = am\<rparr>,
          w1\<lparr>db := (db w1)\<lparr>chatMessages := chatMessages (db w1) @ [userMessageOf e dto sid, am]\<rparr>,
             trace := trace w1 @
               [MessageInserted (userMessageOf e dto sid),
                HttpPost (requestFor rv svc e dto sid
                           ((db w1)\<lparr>chatMessages := chatMessages (db w1) @ [userMessageOf e dto sid]\<rparr>)),
                MessageInserted am]\<rparr>)"
proof -
  let ?um = "userMessageOf e dto sid"
  let ?w2 = "insertMessage ?um w1"
  let ?req = "requestFor rv svc e dto sid (db ?w2)"
  have unf: "sendMessage rv svc e usr dto w = callProvider rv e ?req sid title ?um ?w2"
    unfolding requestFor_def by (rule sendMessage_unfold[OF key res])
  have dbw2: "db ?w2 = (db w1)\<lparr>chatMessages := chatMessages (db w1) @ [?um]\<rparr>"
    by (simp add: insertMessage_def)
  show ?thesis
  proof (cases rule: callProvider_cases[of rv e ?req sid title ?um ?w2])
    case (failed err)
    show ?thesis
      by (rule that(1)[of err]) (simp add: unf failed, simp add: insertMessage_def)
  next
    case (answered am)
    show ?thesis
      by (rule that(2)[of am]) (simp_all add: unf answered, simp add: insertMessage_def)
  qed
qed

lemma resolveSession_trace:
  assumes "resolveSession e usr dto w = (sid, title, w1)"
  shows "\<exists>pre. trace w1 = trace w @ pre \<and> requestsOf pre = [] \<and>
           chatMessages (db w1) = chatMessages (db w) \<and> documents (db w1) = documents (db w)"
proof (cases rule: resolveSession_cases[of dto usr w e])
  case (existing sid' s)
  with assms show ?thesis by simp
next
  case created
  with assms show ?thesis
    by (auto simp: createSession_eq insertSession_def)
qed

lemma sendMessage_sessions:
  assumes key: "openRouterApiKey svc \<noteq> []"
    and res: "resolveSession e usr dto w = (sid, title, w1)"
  shows "sessions (db (snd (sendMessage rv svc e usr dto w))) = sessions (db w1) \<and>
         documents (db (snd (sendMessage rv svc e usr dto w))) = documents (db w1) \<and>
         (\<forall>r. fst (sendMessage rv svc e usr dto w) = Inr r \<longrightarrow>
               res_sessionId r = sid \<and> res_sessionTitle r = title)"
  using key res by (cases rule: sendMessage_run[where rv = rv]) simp_all

lemma sendMessage_request:
  assumes key: "openRouterApiKey svc \<noteq> []"
    and res: "resolveSession e usr dto w = (sid, title, w1)"
  shows "requestsOf (trace (snd (sendMessage rv svc e usr dto w))) =
           requestsOf (trace w) @
             [requestFor rv svc e dto sid
                ((db w1)\<lparr>chatMessages := chatMessages (db w1) @ [userMessageOf e dto sid]\<rparr>)]"
proof -
  from resolveSession_trace[OF res] obtain pre where
    pre: "trace w1 = trace w @ pre" "requestsOf pre = []" by blast
  from key res show ?thesis
    by (cases rule: sendMessage_run[where rv = rv]) (simp_all add: pre requestsOf_append)
qed

lemma sendMessage_messages:
  assumes key: "openRouterApiKey svc \<noteq> []"
    and res: "resolveSession e usr dto w = (sid, title, w1)"
  shows "\<exists>extra. chatMessages (db (snd (sendMessage rv svc e usr dto w))) =
            chatMessages (db w1) @ userMessageOf e dto sid # extra \<and>
            (\<forall>m \<in> set extra. m_sessionId m = sid)"
  using key res by (cases rule: sendMessage_run[where rv = rv]) simp_all

lemma loadDocumentsContext_eq:
  "loadDocumentsContext e dto st =
     (let docs = (case documentIds dto of None \<Rightarrow> [] | Some ids \<Rightarrow> filter (\<lambda>d. d_id d \<in> set ids) (documents st))
      in if docs = [] then [] else renderContext e docs)"
  by (auto simp: loadDocumentsContext_def findDocuments_def Let_def split: option.splits)

lemma sendMessage_payload:
  assumes key: "openRouterApiKey svc \<noteq> []"
  shows "map r_messages (requestsOf (trace (snd (sendMessage rv svc e usr dto w)))) =
     map r_messages (requestsOf (trace w)) @
       [buildPayload rv (loadDocumentsContext e dto (db w))
          (take 20 (sort_key m_createdAt
             (filter (\<lambda>m. m_sessionId m = fst (resolveSession e usr dto w))
                (chatMessages (db w) @ [userMessageOf e dto (fst (resolveSession e usr dto w))]))))]"
proof -
  obtain sid title w1 where res: "resolveSession e usr dto w = (sid, title, w1)"
    by (cases "resolveSession e usr dto w") auto
  from resolveSession_trace[OF res] have same: "chatMessages (db w1) = chatMessages (db w)"
    "documents (db w1) = documents (db w)" by blast+
  let ?st = "(db w1)\<lparr>chatMessages := chatMessages (db w1) @ [userMessageOf e dto sid]\<rparr>"
  have docs: "documents ?st = documents (db w)" by (simp add: same)
  have ctx: "loadDocumentsContext e dto ?st = loadDocumentsContext e dto (db w)"
    unfolding loadDocumentsContext_eq docs ..
  have hist: "messagesOf sid ?st =
      sort_key m_createdAt (filter (\<lambda>m. m_sessionId m = sid) (chatMessages (db w) @ [userMessageOf e dto sid]))"
    by (simp add: messagesOf_def same)
  have "r_messages (requestFor rv svc e dto sid ?st) =
      buildPayload rv (loadDocumentsContext e dto (db w))
        (take 20 (sort_key m_createdAt
           (filter (\<lambda>m. m_sessionId m = sid) (chatMessages (db w) @ [userMessageOf e dto sid]))))"
    unfolding requestFor_def ctx hist by (simp add: buildRequest_def)
  with sendMessage_request[OF key res, of rv] show ?thesis
    by (simp add: res)
qed

section \<open>The title of a new session\<close>

text \<open>
  C3, as stated: the title of the new session is cut from the trimmed message. The
  service does not trim: for the message of two spaces followed by \<^verbatim>\<open>hi\<close> the stored
  title keeps the spaces.
\<close>

theorem new_session_title_untrimmed:
  "map s_title (sessions (db (snd (sendMessage Sanitizing service0 (env0 (Response 200 okBody)) alice
       dtoBlank world0)))) = [''Alice chat'', ''Bob chat'', ''  hi''] \<and>
   titleOfTrimmed (message dtoBlank) = ''hi'' \<and>
   s_title (last (sessions (db (snd (sendMessage Sanitizing service0 (env0 (Response 200 okBody)) alice
       dtoBlank world0))))) \<noteq> titleOfTrimmed (message dtoBlank)"
  by (simp add: sendMessage_def service0_def newChatService_def dtoBlank_def resolveSession_def
      createSession_def newSessionTitle_def insertSession_def insertMessage_def world0_def
      callProvider_def axiosPost_def env0_def okBody_def rawAssistantContent_def optField_def
      optFirst_def onError_def titleOfTrimmed_def trim_def is_space_def Let_def)

text \<open>
  C3, amended. For every call that passes the credential check and whose \<open>sessionId\<close> is
  absent, empty, or not the id of a session owned by the caller, the session table
  grows by exactly one row, owned by the caller, whose title is the first 80 characters
  of the message as received, or "New Chat" when the message is the empty string; a
  successful call returns that session's id and title.
\<close>

theorem new_session_title:
  assumes key: "openRouterApiKey svc \<noteq> []"
    and unresolved: "sessionId dto = None \<or> sessionId dto = Some [] \<or>
       (\<exists>sid. sessionId dto = Some sid \<and>
          \<not> (\<exists>s \<in> set (sessions (db w)). s_id s = sid \<and> s_userId s = u_id usr))"
  shows "sessions (db (snd (sendMessage rv svc e usr dto w))) =
           sessions (db w) @
             [\<lparr>s_id = genSessionId e, s_userId = u_id usr,
               s_title = (if message dto = [] then ''New Chat'' else take 80 (message dto)),
               s_createdAt = nowSession e, s_updatedAt = nowSession e\<rparr>] \<and>
         (\<forall>r. fst (sendMessage rv svc e usr dto w) = Inr r \<longrightarrow>
            res_sessionId r = genSessionId e \<and>
            res_sessionTitle r = (if message dto = [] then ''New Chat'' else take 80 (message dto)))"
proof (cases rule: resolveSession_cases[of dto usr w e])
  case (existing sid s)
  from findFirstSession_SomeD[OF existing(3)] existing(1,2) unresolved
  show ?thesis by auto
next
  case created
  have t: "newSessionTitle (message dto) = (if message dto = [] then ''New Chat'' else take 80 (message dto))"
    by (simp add: newSessionTitle_def)
  from sendMessage_sessions[OF key created(1)[unfolded createSession_eq], of rv]
  show ?thesis by (simp add: insertSession_def t)
qed


theorem new_session_title_witness:
  "openRouterApiKey service0 \<noteq> [] \<and>
   (sessionId dtoBlank = None \<or> sessionId dtoBlank = Some [] \<or>
      (\<exists>sid. sessionId dtoBlank = Some sid \<and>
         \<not> (\<exists>s \<in> set (sessions (db world0)). s_id s = sid \<and> s_userId s = u_id alice))) \<and>
   sessions (db (snd (sendMessage Sanitizing service0 (env0 TimedOut) alice dtoBlank world0))) =
     sessions (db world0) @
       [\<lparr>s_id = genSessionId (env0 TimedOut), s_userId = u_id alice,
         s_title = (if message dtoBlank = [] then ''New Chat'' else take 80 (message dtoBlank)),
         s_createdAt = nowSession (env0 TimedOut), s_updatedAt = nowSession (env0 TimedOut)\<rparr>]"
proof -
  have h1: "openRouterApiKey service0 \<noteq> []"
    by (simp add: service0_def newChatService_def)
  have h2: "sessionId dtoBlank = None \<or> sessionId dtoBlank = Some [] \<or>
      (\<exists>sid. sessionId dtoBlank = Some sid \<and>
         \<not> (\<exists>s \<in> set (sessions (db world0)). s_id s = sid \<and> s_userId s = u_id alice))"
    by (simp add: dtoBlank_def)
  from new_session_title[OF h1 h2, of Sanitizing "env0 TimedOut"] h1 h2
  show ?thesis by blast
qed

section \<open>The user message is stored before the provider is called\<close>

text \<open>
  C5. For every call that passes the credential check, the trace of the call contains
  the insertion of the user message (role user, the content of the request) directly
  before the one outbound request, with no request before it; the stored messages after
  the call begin with the earlier ones followed by that row, and when the call ends in
  an exception they are exactly the earlier ones followed by that row.
\<close>

theorem user_message_persisted_before_call:
  assumes key: "openRouterApiKey svc \<noteq> []"
  shows "\<exists>sid pre req ev.
     trace (snd (sendMessage rv svc e usr dto w)) =
       trace w @ pre @
         [MessageInserted \<lparr>m_id = genUserMessageId e, m_sessionId = sid, m_role = ''user'',
                           m_content = message dto, m_createdAt = nowUserMessage e\<rparr>,
          HttpPost req, ev] \<and>
     requestsOf pre = [] \<and> requestsOf [ev] = [] \<and>
     prefix (chatMessages (db w) @
              [\<lparr>m_id = genUserMessageId e, m_sessionId = sid, m_role = ''user'',
                m_content = message dto, m_createdAt = nowUserMessage e\<rparr>])
       (chatMessages (db (snd (sendMessage rv svc e usr dto w)))) \<and>
     (isl (fst (sendMessage rv svc e usr dto w)) \<longrightarrow>
        chatMessages (db (snd (sendMessage rv svc e usr dto w))) =
          chatMessages (db w) @
            [\<lparr>m_id = genUserMessageId e, m_sessionId = sid, m_role = ''user'',
              m_content = message dto, m_createdAt = nowUserMessage e\<rparr>])"
proof -
  obtain sid title w1 where res: "resolveSession e usr dto w = (sid, title, w1)"
    by (cases "resolveSession e usr dto w") auto
  from resolveSession_trace[OF res] obtain pre where
    pre: "trace w1 = trace w @ pre" "requestsOf pre = []" "chatMessages (db w1) = chatMessages (db w)"
    by blast
  from key res show ?thesis
  proof (cases rule: sendMessage_run[where rv = rv])
    case (failed err)
    show ?thesis
      apply (rule exI[of _ sid], rule exI[of _ pre])
      apply (rule exI, rule exI[of _ "ConsoleError ''OpenRouter chat error'' err"])
      apply (simp add: failed pre userMessageOf_def)
      done
  next
    case (answered am)
    show ?thesis
      apply (rule exI[of _ sid], rule exI[of _ pre])
      apply (rule exI, rule exI[of _ "MessageInserted am"])
      apply (simp add: answered pre userMessageOf_def)
      done
  qed
qed



theorem user_message_persisted_before_call_witness:
  "openRouterApiKey service0 \<noteq> [] \<and>
   (\<exists>sid pre req ev.
     trace (snd (sendMessage Sanitizing service0 (env0 TimedOut) alice dtoDocs world0)) =
       trace world0 @ pre @
         [MessageInserted \<lparr>m_id = genUserMessageId (env0 TimedOut), m_sessionId = sid, m_role = ''user'',
                           m_content = message dtoDocs, m_createdAt = nowUserMessage (env0 TimedOut)\<rparr>,
          HttpPost req, ev] \<and>
     requestsOf pre = [] \<and> requestsOf [ev] = [] \<and>
     prefix (chatMessages (db world0) @
              [\<lparr>m_id = genUserMessageId (env0 TimedOut), m_sessionId = sid, m_role = ''user'',
                m_content = message dtoDocs, m_createdAt = nowUserMessage (env0 TimedOut)\<rparr>])
       (chatMessages (db (snd (sendMessage Sanitizing service0 (env0 TimedOut) alice dtoDocs world0)))) \<and>
     (isl (fst (sendMessage Sanitizing service0 (env0 TimedOut) alice dtoDocs world0)) \<longrightarrow>
        chatMessages (db (snd (sendMessage Sanitizing service0 (env0 TimedOut) alice dtoDocs world0))) =
          chatMessages (db world0) @
            [\<lparr>m_id = genUserMessageId (env0 TimedOut), m_sessionId = sid, m_role = ''user'',
              m_content = message dtoDocs, m_createdAt = nowUserMessage (env0 TimedOut)\<rparr>]))"
proof -
  have h: "openRouterApiKey service0 \<noteq> []"
    by (simp add: service0_def newChatService_def)
  from user_message_persisted_before_call[OF h, of Sanitizing "env0 TimedOut" alice dtoDocs world0] h
  show ?thesis by (rule conjI[rotated])
qed

section \<open>Roles in the payload\<close>

text \<open>
  C10. For every call that passes the credential check, exactly one request is sent and
  its messages are: the system prompt, then the document context as a second system
  message when there is one, then, in this order, the first twenty of the stored
  messages of the session (the rows of the table, with the incoming message just
  inserted, whose session id is the resolved one, sorted by ascending creation time),
  each forwarded with its content and with the role assistant when its stored role is
  the string assistant and the role user for every other stored role. So every message
  after the leading system messages has the role user or the role assistant.
\<close>

theorem payload_roles:
  assumes key: "openRouterApiKey svc \<noteq> []"
  shows "let sid = fst (resolveSession e usr dto w);
             stored = chatMessages (db w) @
               [\<lparr>m_id = genUserMessageId e, m_sessionId = sid, m_role = ''user'',
                 m_content = message dto, m_createdAt = nowUserMessage e\<rparr>];
             hist = take 20 (sort_key m_createdAt (filter (\<lambda>m. m_sessionId m = sid) stored));
             ctx = loadDocumentsContext e dto (db w);
             sys = \<lparr>p_role = ''system'', p_content = systemPrompt rv\<rparr> #
                   (if ctx = [] then [] else [\<lparr>p_role = ''system'', p_content = ctx\<rparr>]);
             sent = map (\<lambda>m. \<lparr>p_role = (if m_role m = ''assistant'' then ''assistant'' else ''user''),
                               p_content = m_content m\<rparr>) hist
         in map r_messages (requestsOf (trace (snd (sendMessage rv svc e usr dto w)))) =
              map r_messages (requestsOf (trace w)) @ [sys @ sent] \<and>
            (\<forall>p \<in> set sys. p_role p = ''system'') \<and>
            (\<forall>m \<in> set hist. m \<in> set stored \<and> m_sessionId m = sid) \<and>
            (\<forall>i < length hist.
               p_role ((sys @ sent) ! (length sys + i)) =
                 (if m_role (hist ! i) = ''assistant'' then ''assistant'' else ''user'') \<and>
               p_content ((sys @ sent) ! (length sys + i)) = m_content (hist ! i)) \<and>
            (\<forall>p \<in> set sent. p_role p = ''user'' \<or> p_role p = ''assistant'')"
proof -
  define sid where "sid = fst (resolveSession e usr dto w)"
  define stored where "stored = chatMessages (db w) @
               [\<lparr>m_id = genUserMessageId e, m_sessionId = sid, m_role = ''user'',
                 m_content = message dto, m_createdAt = nowUserMessage e\<rparr>]"
  define hist where "hist = take 20 (sort_key m_createdAt (filter (\<lambda>m. m_sessionId m = sid) stored))"
  define ctx where "ctx = loadDocumentsContext e dto (db w)"
  define sys where "sys = \<lparr>p_role = ''system'', p_content = systemPrompt rv\<rparr> #
                   (if ctx = [] then [] else [\<lparr>p_role = ''system'', p_content = ctx\<rparr>])"
  define sent where "sent = map (\<lambda>m. \<lparr>p_role = (if m_role m = ''assistant'' then ''assistant'' else ''user''),
                               p_content = m_content m\<rparr>) hist"
  have a: "map r_messages (requestsOf (trace (snd (sendMessage rv svc e usr dto w)))) =
              map r_messages (requestsOf (trace w)) @ [sys @ sent]"
    unfolding sendMessage_payload[OF key]
    by (simp add: buildPayload_def forwardMessage_def userMessageOf_def sid_def stored_def hist_def
        ctx_def sys_def sent_def)
  have b: "\<forall>p \<in> set sys. p_role p = ''system''"
    by (simp add: sys_def)
  have "set hist \<subseteq> set (sort_key m_createdAt (filter (\<lambda>m. m_sessionId m = sid) stored))"
    unfolding hist_def by (rule set_take_subset)
  then have c: "\<forall>m \<in> set hist. m \<in> set stored \<and> m_sessionId m = sid"
    by auto
  have d: "\<forall>i < length hist.
               p_role ((sys @ sent) ! (length sys + i)) =
                 (if m_role (hist ! i) = ''assistant'' then ''assistant'' else ''user'') \<and>
               p_content ((sys @ sent) ! (length sys + i)) = m_content (hist ! i)"
    by (simp add: sent_def)
  have e: "\<forall>p \<in> set sent. p_role p = ''user'' \<or> p_role p = ''assistant''"
    by (auto simp: sent_def)
  from a b c d e show ?thesis
    unfolding Let_def sid_def[symmetric] stored_def[symmetric] hist_def[symmetric] ctx_def[symmetric]
      sys_def[symmetric] sent_def[symmetric]
    by (intro conjI)
qed

text \<open>
  At the session of alice, whose stored roles are user, assistant and tool, with one
  matching document: the roles sent are system, system, user, assistant, user, user.
\<close>

theorem payload_roles_witness:
  "openRouterApiKey service0 \<noteq> [] \<and>
   map (map p_role \<circ> r_messages)
     (requestsOf (trace (snd (sendMessage Initial service0 (env0 (Response 200 okBody)) alice dtoDocs world0)))) =
     [[''system'', ''system'', ''user'', ''assistant'', ''user'', ''user'']] \<and>
   map (map p_content \<circ> tl \<circ> tl \<circ> r_messages)
     (requestsOf (trace (snd (sendMessage Initial service0 (env0 (Response 200 okBody)) alice dtoDocs world0)))) =
     [[''hello'', ''hi'', ''raw'', ''Summarize Q3'']]"
proof -
  have h: "openRouterApiKey service0 \<noteq> []"
    by (simp add: service0_def newChatService_def)
  have sid: "fst (resolveSession (env0 (Response 200 okBody)) alice dtoDocs world0) = ''sa''"
    by (simp add: resolveSession_def dtoDocs_def findFirstSession_def world0_def alice_def)
  have ctx: "loadDocumentsContext (env0 (Response 200 okBody)) dtoDocs (db world0) \<noteq> []"
    by (simp add: loadDocumentsContext_def dtoDocs_def findDocuments_def world0_def docA_def docB_def
        renderContext_def)
  from payload_roles[OF h, where rv = Initial and e = "env0 (Response 200 okBody)" and usr = alice
      and dto = dtoDocs and w = world0]
  have sent: "map r_messages
     (requestsOf (trace (snd (sendMessage Initial service0 (env0 (Response 200 okBody)) alice dtoDocs world0)))) =
     [[\<lparr>p_role = ''system'', p_content = systemPrompt Initial\<rparr>,
       \<lparr>p_role = ''system'', p_content = loadDocumentsContext (env0 (Response 200 okBody)) dtoDocs (db world0)\<rparr>,
       \<lparr>p_role = ''user'', p_content = ''hello''\<rparr>,
       \<lparr>p_role = ''assistant'', p_content = ''hi''\<rparr>,
       \<lparr>p_role = ''user'', p_content = ''raw''\<rparr>,
       \<lparr>p_role = ''user'', p_content = ''Summarize Q3''\<rparr>]]"
    unfolding Let_def sid using ctx
    by (simp add: world0_def msg_def dtoDocs_def env0_def)
  show ?thesis
    unfolding map_map[symmetric] sent using h by simp
qed

section \<open>The document context\<close>

lemma sublist_extend: "sublist xs ys \<Longrightarrow> sublist xs (ps @ ys @ ss)"
proof -
  assume "sublist xs ys"
  then obtain a b where "ys = a @ xs @ b" by (auto simp: sublist_def)
  then have "ps @ ys @ ss = (ps @ a) @ xs @ (b @ ss)" by simp
  then show ?thesis unfolding sublist_def by blast
qed

lemma sublist_join:
  "d \<in> set ds \<Longrightarrow> sublist (f d) (join sep (map f ds))"
proof (induction ds rule: induct_list012)
  case 1
  then show ?case by simp
next
  case (2 x)
  then show ?case by simp
next
  case (3 x y zs)
  show ?case
  proof (cases "d = x")
    case True
    then show ?thesis by (simp add: sublist_append_rightI del: join.simps(2))
  next
    case False
    with 3 have "sublist (f d) (join sep (map f (y # zs)))" by simp
    then have "sublist (f d) ((f x @ sep) @ join sep (map f (y # zs)) @ [])"
      by (rule sublist_extend)
    then show ?thesis by simp
  qed
qed

lemma renderContext_nonempty: "renderContext e docs \<noteq> []"
  by (simp add: renderContext_def)


text \<open>
  C9. For every call that passes the credential check, let the matched documents be the
  stored documents whose id is among \<open>documentIds\<close> (none when \<open>documentIds\<close> is absent;
  ids that match nothing contribute nothing). The one request sent carries the primary
  system prompt first; when there is at least one matched document, a second system
  message follows it, whose content is the rendered context and contains, for each
  matched document, the block of its title, fund label, type, status, ISO period bounds
  and description (or n/a); when there is none, the history follows the primary prompt
  directly. No forwarded history message has the role system.
\<close>

theorem document_context_message:
  assumes key: "openRouterApiKey svc \<noteq> []"
  shows "\<exists>req hist.
     requestsOf (trace (snd (sendMessage rv svc e usr dto w))) = requestsOf (trace w) @ [req] \<and>
     (let docs = (case documentIds dto of
                    None \<Rightarrow> []
                  | Some ids \<Rightarrow> filter (\<lambda>d. d_id d \<in> set ids) (documents (db w)))
      in r_messages req =
           \<lparr>p_role = ''system'', p_content = systemPrompt rv\<rparr> #
           (if docs = [] then [] else [\<lparr>p_role = ''system'', p_content = renderContext e docs\<rparr>]) @
           map forwardMessage hist \<and>
         (\<forall>p \<in> set (map forwardMessage hist). p_role p \<noteq> ''system'') \<and>
         (\<forall>d \<in> set docs.
            sublist
              (''- Title: '' @ d_title d @ nl @
               ''  Fund: '' @ (case d_fund d of Some f \<Rightarrow> f_name f @ '' ('' @ f_code f @ '')'' | None \<Rightarrow> d_fundId d) @ nl @
               ''  Type: '' @ d_type d @ nl @
               ''  Status: '' @ d_status d @ nl @
               ''  Period: '' @ toISOString e (d_periodStart d) @ '' '' @ en_dash @ '' '' @
                  toISOString e (d_periodEnd d) @ nl @
               ''  Description: '' @ (case d_description d of None \<Rightarrow> ''n/a'' | Some t \<Rightarrow> t) @ nl)
              (renderContext e docs)))"
proof -
  obtain sid title w1 where res: "resolveSession e usr dto w = (sid, title, w1)"
    by (cases "resolveSession e usr dto w") auto
  from resolveSession_trace[OF res] have docs_same: "documents (db w1) = documents (db w)"
    by blast
  let ?st = "(db w1)\<lparr>chatMessages := chatMessages (db w1) @ [userMessageOf e dto sid]\<rparr>"
  let ?hist = "take 20 (messagesOf sid ?st)"
  let ?docs = "case documentIds dto of
                 None \<Rightarrow> []
               | Some ids \<Rightarrow> filter (\<lambda>d. d_id d \<in> set ids) (documents (db w))"
  have st_docs: "documents ?st = documents (db w)"
    by (simp add: docs_same)
  have ctx: "loadDocumentsContext e dto ?st = (if ?docs = [] then [] else renderContext e ?docs)"
    unfolding loadDocumentsContext_eq st_docs by (simp add: Let_def)
  have msgs: "r_messages (requestFor rv svc e dto sid ?st) =
      \<lparr>p_role = ''system'', p_content = systemPrompt rv\<rparr> #
      (if ?docs = [] then [] else [\<lparr>p_role = ''system'', p_content = renderContext e ?docs\<rparr>]) @
      map forwardMessage ?hist"
    unfolding requestFor_def buildRequest_def buildPayload_def ctx
    by (simp add: renderContext_nonempty)
  have roles: "\<forall>p \<in> set (map forwardMessage ?hist). p_role p \<noteq> ''system''"
    by (simp add: forwardMessage_def)
  have shape: "renderContext e ?docs =
      (''The user has selected the following compliance documents to discuss:'' @ nl) @
      join nl (map (renderDocument e) ?docs) @
      (nl @ ''Use ONLY this information plus the conversation history to answer questions, and clearly say when information is not available in these documents.'')"
    by (simp add: renderContext_def)
  have rendered: "sublist (renderDocument e d) (renderContext e ?docs)" if "d \<in> set ?docs" for d
    unfolding shape by (rule sublist_extend[OF sublist_join[OF that]])
  have block: "\<forall>d \<in> set ?docs. sublist
              (''- Title: '' @ d_title d @ nl @
               ''  Fund: '' @ (case d_fund d of Some f \<Rightarrow> f_name f @ '' ('' @ f_code f @ '')'' | None \<Rightarrow> d_fundId d) @ nl @
               ''  Type: '' @ d_type d @ nl @
               ''  Status: '' @ d_status d @ nl @
               ''  Period: '' @ toISOString e (d_periodStart d) @ '' '' @ en_dash @ '' '' @
                  toISOString e (d_periodEnd d) @ nl @
               ''  Description: '' @ (case d_description d of None \<Rightarrow> ''n/a'' | Some t \<Rightarrow> t) @ nl)
              (renderContext e ?docs)"
    using rendered unfolding renderDocument_def fundLabel_def by blast
  show ?thesis
    apply (rule exI[of _ "requestFor rv svc e dto sid ?st"], rule exI[of _ ?hist])
    apply (rule conjI)
     apply (rule sendMessage_request[OF key res])
    unfolding Let_def
    apply (intro conjI)
      apply (rule msgs)
     apply (rule roles)
    apply (rule block)
    done
qed


theorem document_context_message_witness:
  "openRouterApiKey service0 \<noteq> [] \<and>
   (\<exists>req hist.
     requestsOf (trace (snd (sendMessage Sanitizing service0 (env0 TimedOut) alice dtoDocs world0))) =
       requestsOf (trace world0) @ [req] \<and>
     (let docs = (case documentIds dtoDocs of
                    None \<Rightarrow> []
                  | Some ids \<Rightarrow> filter (\<lambda>d. d_id d \<in> set ids) (documents (db world0)))
      in r_messages req =
           \<lparr>p_role = ''system'', p_content = systemPrompt Sanitizing\<rparr> #
           (if docs = [] then [] else [\<lparr>p_role = ''system'', p_content = renderContext (env0 TimedOut) docs\<rparr>]) @
           map forwardMessage hist \<and>
         (\<forall>p \<in> set (map forwardMessage hist). p_role p \<noteq> ''system'') \<and>
         (\<forall>d \<in> set docs.
            sublist
              (''- Title: '' @ d_title d @ nl @
               ''  Fund: '' @ (case d_fund d of Some f \<Rightarrow> f_name f @ '' ('' @ f_code f @ '')'' | None \<Rightarrow> d_fundId d) @ nl @
               ''  Type: '' @ d_type d @ nl @
               ''  Status: '' @ d_status d @ nl @
               ''  Period: '' @ toISOString (env0 TimedOut) (d_periodStart d) @ '' '' @ en_dash @ '' '' @
                  toISOString (env0 TimedOut) (d_periodEnd d) @ nl @
               ''  Description: '' @ (case d_description d of None \<Rightarrow> ''n/a'' | Some t \<Rightarrow> t) @ nl)
              (renderContext (env0 TimedOut) docs)))) \<and>
   (case documentIds dtoDocs of
      None \<Rightarrow> []
    | Some ids \<Rightarrow> filter (\<lambda>d. d_id d \<in> set ids) (documents (db world0))) = [docA]"
proof -
  have h: "openRouterApiKey service0 \<noteq> []"
    by (simp add: service0_def newChatService_def)
  have docs: "(case documentIds dtoDocs of
      None \<Rightarrow> []
    | Some ids \<Rightarrow> filter (\<lambda>d. d_id d \<in> set ids) (documents (db world0))) = [docA]"
    by (simp add: dtoDocs_def world0_def docA_def docB_def)
  from document_context_message[OF h, of Sanitizing "env0 TimedOut" alice dtoDocs world0] h docs
  show ?thesis by blast
qed

section \<open>Failures of the provider call\<close>






section \<open>The history window\<close>

lemma oldest_twenty:
  "map m_content (take 20 (messagesOf ''sa'' store21)) = map (\<lambda>i. replicate i CHR ''x'') [1..<21]"
  by code_simp

lemma newest_twenty:
  "map m_content (mostRecent 20 ''sa'' store21) = map (\<lambda>i. replicate i CHR ''x'') [2..<21] @ [''newest'']"
  by code_simp

text \<open>
  C1 at a session of more than twenty messages. The session holds twenty messages and
  a twenty-first, \<^verbatim>\<open>newest\<close>, is sent. The history in the payload is the contents of the
  twenty oldest messages; the most recent twenty would leave out the oldest and end
  with \<^verbatim>\<open>newest\<close>.
\<close>

theorem history_is_oldest_twenty:
  "map (map p_content \<circ> tl \<circ> r_messages)
     (requestsOf (trace (snd (sendMessage Sanitizing service0 env21 alice dtoNewest world20)))) =
     [map (\<lambda>i. replicate i CHR ''x'') [1..<21]] \<and>
   map m_content (mostRecent 20 ''sa'' store21) =
     map (\<lambda>i. replicate i CHR ''x'') [2..<21] @ [''newest''] \<and>
   map (map p_content \<circ> tl \<circ> r_messages)
     (requestsOf (trace (snd (sendMessage Sanitizing service0 env21 alice dtoNewest world20)))) \<noteq>
     [map m_content (mostRecent 20 ''sa'' store21)]"
proof -
  have key: "openRouterApiKey service0 \<noteq> []"
    by (simp add: service0_def newChatService_def)
  have res: "resolveSession env21 alice dtoNewest world20 = (''sa'', ''Alice chat'', world20)"
    by (simp add: resolveSession_def dtoNewest_def findFirstSession_def world20_def alice_def)
  have req: "requestsOf (trace (snd (sendMessage Sanitizing service0 env21 alice dtoNewest world20))) =
      [requestFor Sanitizing service0 env21 dtoNewest ''sa'' store21]"
    using sendMessage_request[OF key res, of Sanitizing] by (simp add: store21_def world20_def)
  have ctx: "loadDocumentsContext env21 dtoNewest store21 = []"
    by (simp add: loadDocumentsContext_def dtoNewest_def)
  have sent: "(map p_content \<circ> tl \<circ> r_messages) (requestFor Sanitizing service0 env21 dtoNewest ''sa'' store21) =
      map m_content (take 20 (messagesOf ''sa'' store21))"
    by (simp add: requestFor_def buildRequest_def buildPayload_def ctx forwardMessage_def comp_def)
  have differ: "map (\<lambda>i. replicate i CHR ''x'') [1..<21] \<noteq>
      map (\<lambda>i. replicate i CHR ''x'') [2..<21] @ [''newest'']"
    by code_simp
  show ?thesis
    unfolding req by (simp only: list.map sent oldest_twenty newest_twenty differ list.inject simp_thms)
qed

section \<open>Sessions of other users\<close>

lemma owned_id_differs:
  assumes uniq: "distinct (map s_id (sessions st))"
    and f: "f \<in> set (sessions st)" and foreign: "s_userId f \<noteq> uid"
    and s: "s \<in> set (sessions st)" and own: "s_userId s = uid"
  shows "s_id s \<noteq> s_id f"
proof
  assume "s_id s = s_id f"
  with uniq f s have "s = f"
    by (meson distinct_map inj_on_def)
  with foreign own show False by simp
qed

lemma foreign_not_found:
  assumes "distinct (map s_id (sessions st))" "f \<in> set (sessions st)" "s_userId f \<noteq> uid"
  shows "findFirstSession (s_id f) uid st = None"
  unfolding findFirstSession_None_iff using owned_id_differs[OF assms] by blast

lemma foreign_not_listed:
  assumes "distinct (map s_id (sessions st))" "f \<in> set (sessions st)" "s_userId f \<noteq> uid"
  shows "s_id f \<notin> set (map ls_id (listSessions uid st))"
proof
  assume "s_id f \<in> set (map ls_id (listSessions uid st))"
  then obtain s where "s \<in> set (sessions st)" "s_userId s = uid" "s_id s = s_id f"
    by (auto simp: listSessions_def)
  with owned_id_differs[OF assms] show False by blast
qed

lemma deleteSession_keeps_foreign:
  assumes uniq: "distinct (map s_id (sessions (db w)))"
    and f: "f \<in> set (sessions (db w))" and foreign: "s_userId f \<noteq> uid"
  shows "f \<in> set (sessions (db (snd (deleteSession uid sid w)))) \<and>
         filter (\<lambda>m. m_sessionId m = s_id f) (chatMessages (db (snd (deleteSession uid sid w)))) =
           filter (\<lambda>m. m_sessionId m = s_id f) (chatMessages (db w))"
proof (cases "findFirstSession sid uid (db w)")
  case None
  with f show ?thesis by (simp add: deleteSession_def)
next
  case (Some s)
  from findFirstSession_SomeD[OF Some] owned_id_differs[OF uniq f foreign, of s]
  have ne: "sid \<noteq> s_id f" by auto
  have "filter (\<lambda>m. m_sessionId m = s_id f) (filter (\<lambda>m. m_sessionId m \<noteq> sid) ms) =
        filter (\<lambda>m. m_sessionId m = s_id f) ms" for ms :: "chat_message list"
    using ne by (induction ms) auto
  with Some f ne show ?thesis
    by (simp add: deleteSession_def deleteSessionRow_def deleteManyMessages_def)
qed

lemma resolveSession_own:
  assumes uniq: "distinct (map s_id (sessions (db w)))"
    and fresh: "genSessionId e \<notin> set (map s_id (sessions (db w)))"
    and f: "f \<in> set (sessions (db w))" and foreign: "s_userId f \<noteq> u_id usr"
    and res: "resolveSession e usr dto w = (sid, title, w1)"
  shows "sid \<noteq> s_id f \<and> f \<in> set (sessions (db w1)) \<and>
         chatMessages (db w1) = chatMessages (db w) \<and>
         (\<exists>s \<in> set (sessions (db w1)). s_id s = sid \<and> s_userId s = u_id usr)"
proof (cases rule: resolveSession_cases[of dto usr w e])
  case (existing sid' s)
  from findFirstSession_SomeD[OF existing(3)] owned_id_differs[OF uniq f foreign, of s]
  have "sid' \<noteq> s_id f" "s \<in> set (sessions (db w))" "s_id s = sid'" "s_userId s = u_id usr" by auto
  with existing(4) res f show ?thesis by auto
next
  case created
  with res f fresh show ?thesis
    by (auto simp: createSession_eq insertSession_def)
qed

lemma sendMessage_keeps_foreign:
  assumes uniq: "distinct (map s_id (sessions (db w)))"
    and fresh: "genSessionId e \<notin> set (map s_id (sessions (db w)))"
    and f: "f \<in> set (sessions (db w))" and foreign: "s_userId f \<noteq> u_id usr"
  shows "f \<in> set (sessions (db (snd (sendMessage rv svc e usr dto w)))) \<and>
         filter (\<lambda>m. m_sessionId m = s_id f) (chatMessages (db (snd (sendMessage rv svc e usr dto w)))) =
           filter (\<lambda>m. m_sessionId m = s_id f) (chatMessages (db w)) \<and>
         (\<forall>r. fst (sendMessage rv svc e usr dto w) = Inr r \<longrightarrow> res_sessionId r \<noteq> s_id f)"
proof (cases "openRouterApiKey svc = []")
  case True
  with f show ?thesis by (simp add: sendMessage_def)
next
  case False
  obtain sid title w1 where res: "resolveSession e usr dto w = (sid, title, w1)"
    by (cases "resolveSession e usr dto w") auto
  from resolveSession_own[OF uniq fresh f foreign res]
  have ne: "sid \<noteq> s_id f" and f1: "f \<in> set (sessions (db w1))"
    and m1: "chatMessages (db w1) = chatMessages (db w)" by auto
  from sendMessage_messages[OF False res, of rv] obtain extra where
    ex: "chatMessages (db (snd (sendMessage rv svc e usr dto w))) =
            chatMessages (db w1) @ userMessageOf e dto sid # extra"
    and exs: "\<forall>m \<in> set extra. m_sessionId m = sid" by blast
  have "filter (\<lambda>m. m_sessionId m = s_id f) extra = []"
    using exs ne by (auto simp: filter_empty_conv)
  then have msgs: "filter (\<lambda>m. m_sessionId m = s_id f) (chatMessages (db (snd (sendMessage rv svc e usr dto w)))) =
           filter (\<lambda>m. m_sessionId m = s_id f) (chatMessages (db w))"
    using ne by (simp add: ex m1 userMessageOf_def)
  from sendMessage_sessions[OF False res, of rv] f1 ne msgs show ?thesis by auto
qed


text \<open>
  C2. Let the session ids of the table be distinct (the id is the key of the table) and
  the id given to a new session be none of them. Let \<open>f\<close> be a stored session whose owner
  is not the caller. Then: \<open>listSessions\<close> does not list it, and the message ids it
  returns are those of the listed sessions; \<open>getSession\<close> with its id returns nothing,
  and whatever \<open>getSession\<close> returns is a session of the caller with messages of that
  session only; \<open>deleteSession\<close> with its id changes nothing and returns undefined;
  \<open>deleteSession\<close> with any id and \<open>sendMessage\<close> with any request keep its row and its
  messages as they were, and \<open>sendMessage\<close> never returns its id; the payload that
  \<open>sendMessage\<close> posts is the system prompt, the document context if any, and the first
  twenty (by ascending creation time) of the stored messages whose session id is the
  resolved one, which is not the id of \<open>f\<close>, so it holds no message of \<open>f\<close>; and
  \<open>sendMessage\<close> called with the id of \<open>f\<close> adds one session owned by the caller and
  writes its messages into that new session.
\<close>

theorem foreign_session_untouched:
  assumes uniq: "distinct (map s_id (sessions (db w)))"
    and fresh: "genSessionId e \<notin> set (map s_id (sessions (db w)))"
    and f: "f \<in> set (sessions (db w))" and foreign: "s_userId f \<noteq> u_id usr"
  shows "(\<forall>x \<in> set (listSessions (u_id usr) (db w)).
        ls_id x \<noteq> s_id f \<and>
        ls_messages x = map m_id (filter (\<lambda>m. m_sessionId m = ls_id x) (chatMessages (db w)))) \<and>
     getSession (u_id usr) (s_id f) (db w) = None \<and>
     (\<forall>sid' s ms. getSession (u_id usr) sid' (db w) = Some (s, ms) \<longrightarrow>
        s_userId s = u_id usr \<and> s_id s \<noteq> s_id f \<and> (\<forall>m \<in> set ms. m_sessionId m \<noteq> s_id f)) \<and>
     deleteSession (u_id usr) (s_id f) w = (None, w) \<and>
     (f \<in> set (sessions (db (snd (deleteSession (u_id usr) sid w)))) \<and>
      filter (\<lambda>m. m_sessionId m = s_id f) (chatMessages (db (snd (deleteSession (u_id usr) sid w)))) =
        filter (\<lambda>m. m_sessionId m = s_id f) (chatMessages (db w))) \<and>
     (f \<in> set (sessions (db (snd (sendMessage rv svc e usr dto w)))) \<and>
      filter (\<lambda>m. m_sessionId m = s_id f) (chatMessages (db (snd (sendMessage rv svc e usr dto w)))) =
        filter (\<lambda>m. m_sessionId m = s_id f) (chatMessages (db w)) \<and>
      (\<forall>r. fst (sendMessage rv svc e usr dto w) = Inr r \<longrightarrow> res_sessionId r \<noteq> s_id f)) \<and>
     (openRouterApiKey svc \<noteq> [] \<longrightarrow>
        (let sid = fst (resolveSession e usr dto w);
             stored = chatMessages (db w) @
               [\<lparr>m_id = genUserMessageId e, m_sessionId = sid, m_role = ''user'',
                 m_content = message dto, m_createdAt = nowUserMessage e\<rparr>];
             hist = take 20 (sort_key m_createdAt (filter (\<lambda>m. m_sessionId m = sid) stored));
             ctx = loadDocumentsContext e dto (db w)
         in sid \<noteq> s_id f \<and>
            (\<forall>m \<in> set hist. m_sessionId m \<noteq> s_id f) \<and>
            map r_messages (requestsOf (trace (snd (sendMessage rv svc e usr dto w)))) =
              map r_messages (requestsOf (trace w)) @
                [(\<lparr>p_role = ''system'', p_content = systemPrompt rv\<rparr> #
                  (if ctx = [] then [] else [\<lparr>p_role = ''system'', p_content = ctx\<rparr>])) @
                 map (\<lambda>m. \<lparr>p_role = (if m_role m = ''assistant'' then ''assistant'' else ''user''),
                           p_content = m_content m\<rparr>) hist])) \<and>
     (openRouterApiKey svc \<noteq> [] \<and> sessionId dto = Some (s_id f) \<longrightarrow>
        sessions (db (snd (sendMessage rv svc e usr dto w))) =
          sessions (db w) @
            [\<lparr>s_id = genSessionId e, s_userId = u_id usr, s_title = newSessionTitle (message dto),
              s_createdAt = nowSession e, s_updatedAt = nowSession e\<rparr>] \<and>
        (\<exists>extra.
           chatMessages (db (snd (sendMessage rv svc e usr dto w))) =
             chatMessages (db w) @
               \<lparr>m_id = genUserMessageId e, m_sessionId = genSessionId e, m_role = ''user'',
                 m_content = message dto, m_createdAt = nowUserMessage e\<rparr> # extra \<and>
           (\<forall>m \<in> set extra. m_sessionId m = genSessionId e)) \<and>
        (\<forall>r. fst (sendMessage rv svc e usr dto w) = Inr r \<longrightarrow> res_sessionId r = genSessionId e))"
proof -
  let ?uid = "u_id usr"
  have nf: "findFirstSession (s_id f) ?uid (db w) = None"
    by (rule foreign_not_found[OF uniq f foreign])
  have c1: "\<forall>x \<in> set (listSessions ?uid (db w)).
        ls_id x \<noteq> s_id f \<and>
        ls_messages x = map m_id (filter (\<lambda>m. m_sessionId m = ls_id x) (chatMessages (db w)))"
  proof
    fix x assume x: "x \<in> set (listSessions ?uid (db w))"
    then have "ls_id x \<in> set (map ls_id (listSessions ?uid (db w)))" by simp
    with foreign_not_listed[OF uniq f foreign] have "ls_id x \<noteq> s_id f" by metis
    moreover from x have "ls_messages x =
        map m_id (filter (\<lambda>m. m_sessionId m = ls_id x) (chatMessages (db w)))"
      by (auto simp: listSessions_def)
    ultimately show "ls_id x \<noteq> s_id f \<and>
        ls_messages x = map m_id (filter (\<lambda>m. m_sessionId m = ls_id x) (chatMessages (db w)))"
      by simp
  qed
  have c2: "getSession ?uid (s_id f) (db w) = None"
    by (simp add: getSession_def nf)
  have c2': "\<forall>sid' s ms. getSession ?uid sid' (db w) = Some (s, ms) \<longrightarrow>
        s_userId s = ?uid \<and> s_id s \<noteq> s_id f \<and> (\<forall>m \<in> set ms. m_sessionId m \<noteq> s_id f)"
  proof (intro allI impI)
    fix sid' s ms assume g: "getSession ?uid sid' (db w) = Some (s, ms)"
    then have found: "findFirstSession sid' ?uid (db w) = Some s" and ms: "ms = messagesOf (s_id s) (db w)"
      by (auto simp: getSession_def split: option.splits)
    from findFirstSession_SomeD[OF found] have s: "s \<in> set (sessions (db w))" "s_userId s = ?uid"
      by simp_all
    from owned_id_differs[OF uniq f foreign s] have ne: "s_id s \<noteq> s_id f" .
    have "\<forall>m \<in> set ms. m_sessionId m = s_id s"
      unfolding ms by (auto simp: messagesOf_def)
    with ne s(2) show "s_userId s = ?uid \<and> s_id s \<noteq> s_id f \<and> (\<forall>m \<in> set ms. m_sessionId m \<noteq> s_id f)"
      by simp
  qed
  have c3: "deleteSession ?uid (s_id f) w = (None, w)"
    by (simp add: deleteSession_def nf)
  note c4 = deleteSession_keeps_foreign[OF uniq f foreign, of sid]
  note c5 = sendMessage_keeps_foreign[OF uniq fresh f foreign, of rv svc dto]
  have c6: "openRouterApiKey svc \<noteq> [] \<longrightarrow>
        (let sid = fst (resolveSession e usr dto w);
             stored = chatMessages (db w) @
               [\<lparr>m_id = genUserMessageId e, m_sessionId = sid, m_role = ''user'',
                 m_content = message dto, m_createdAt = nowUserMessage e\<rparr>];
             hist = take 20 (sort_key m_createdAt (filter (\<lambda>m. m_sessionId m = sid) stored));
             ctx = loadDocumentsContext e dto (db w)
         in sid \<noteq> s_id f \<and>
            (\<forall>m \<in> set hist. m_sessionId m \<noteq> s_id f) \<and>
            map r_messages (requestsOf (trace (snd (sendMessage rv svc e usr dto w)))) =
              map r_messages (requestsOf (trace w)) @
                [(\<lparr>p_role = ''system'', p_content = systemPrompt rv\<rparr> #
                  (if ctx = [] then [] else [\<lparr>p_role = ''system'', p_content = ctx\<rparr>])) @
                 map (\<lambda>m. \<lparr>p_role = (if m_role m = ''assistant'' then ''assistant'' else ''user''),
                           p_content = m_content m\<rparr>) hist])"
  proof (rule impI)
    assume key: "openRouterApiKey svc \<noteq> []"
    define sid' where "sid' = fst (resolveSession e usr dto w)"
    obtain title w1 where res: "resolveSession e usr dto w = (sid', title, w1)"
      unfolding sid'_def by (cases "resolveSession e usr dto w") auto
    from resolveSession_own[OF uniq fresh f foreign res] have ne: "sid' \<noteq> s_id f" by simp
    define stored where "stored = chatMessages (db w) @
               [\<lparr>m_id = genUserMessageId e, m_sessionId = sid', m_role = ''user'',
                 m_content = message dto, m_createdAt = nowUserMessage e\<rparr>]"
    define hist where "hist = take 20 (sort_key m_createdAt (filter (\<lambda>m. m_sessionId m = sid') stored))"
    have "set hist \<subseteq> set (sort_key m_createdAt (filter (\<lambda>m. m_sessionId m = sid') stored))"
      unfolding hist_def by (rule set_take_subset)
    with ne have own: "\<forall>m \<in> set hist. m_sessionId m \<noteq> s_id f" by auto
    have sent: "map r_messages (requestsOf (trace (snd (sendMessage rv svc e usr dto w)))) =
              map r_messages (requestsOf (trace w)) @
                [(\<lparr>p_role = ''system'', p_content = systemPrompt rv\<rparr> #
                  (if loadDocumentsContext e dto (db w) = [] then []
                   else [\<lparr>p_role = ''system'', p_content = loadDocumentsContext e dto (db w)\<rparr>])) @
                 map (\<lambda>m. \<lparr>p_role = (if m_role m = ''assistant'' then ''assistant'' else ''user''),
                           p_content = m_content m\<rparr>) hist]"
      unfolding sendMessage_payload[OF key]
      by (simp add: buildPayload_def forwardMessage_def userMessageOf_def sid'_def stored_def hist_def)
    from ne own sent show "(let sid = fst (resolveSession e usr dto w);
             stored = chatMessages (db w) @
               [\<lparr>m_id = genUserMessageId e, m_sessionId = sid, m_role = ''user'',
                 m_content = message dto, m_createdAt = nowUserMessage e\<rparr>];
             hist = take 20 (sort_key m_createdAt (filter (\<lambda>m. m_sessionId m = sid) stored));
             ctx = loadDocumentsContext e dto (db w)
         in sid \<noteq> s_id f \<and>
            (\<forall>m \<in> set hist. m_sessionId m \<noteq> s_id f) \<and>
            map r_messages (requestsOf (trace (snd (sendMessage rv svc e usr dto w)))) =
              map r_messages (requestsOf (trace w)) @
                [(\<lparr>p_role = ''system'', p_content = systemPrompt rv\<rparr> #
                  (if ctx = [] then [] else [\<lparr>p_role = ''system'', p_content = ctx\<rparr>])) @
                 map (\<lambda>m. \<lparr>p_role = (if m_role m = ''assistant'' then ''assistant'' else ''user''),
                           p_content = m_content m\<rparr>) hist])"
      unfolding Let_def sid'_def[symmetric] stored_def[symmetric] hist_def[symmetric]
      by (intro conjI)
  qed
  have c7: "openRouterApiKey svc \<noteq> [] \<and> sessionId dto = Some (s_id f) \<longrightarrow>
        sessions (db (snd (sendMessage rv svc e usr dto w))) =
          sessions (db w) @
            [\<lparr>s_id = genSessionId e, s_userId = u_id usr, s_title = newSessionTitle (message dto),
              s_createdAt = nowSession e, s_updatedAt = nowSession e\<rparr>] \<and>
        (\<exists>extra.
           chatMessages (db (snd (sendMessage rv svc e usr dto w))) =
             chatMessages (db w) @
               \<lparr>m_id = genUserMessageId e, m_sessionId = genSessionId e, m_role = ''user'',
                 m_content = message dto, m_createdAt = nowUserMessage e\<rparr> # extra \<and>
           (\<forall>m \<in> set extra. m_sessionId m = genSessionId e)) \<and>
        (\<forall>r. fst (sendMessage rv svc e usr dto w) = Inr r \<longrightarrow> res_sessionId r = genSessionId e)"
  proof (intro impI, elim conjE)
    assume key: "openRouterApiKey svc \<noteq> []" and given: "sessionId dto = Some (s_id f)"
    have "resolveSession e usr dto w = createSession e usr dto w"
      by (simp add: resolveSession_def given nf)
    then have res: "resolveSession e usr dto w =
       (genSessionId e, newSessionTitle (message dto),
        insertSession \<lparr>s_id = genSessionId e, s_userId = u_id usr, s_title = newSessionTitle (message dto),
                       s_createdAt = nowSession e, s_updatedAt = nowSession e\<rparr> w)"
      by (simp add: createSession_eq)
    have a: "sessions (db (snd (sendMessage rv svc e usr dto w))) =
          sessions (db w) @
            [\<lparr>s_id = genSessionId e, s_userId = u_id usr, s_title = newSessionTitle (message dto),
              s_createdAt = nowSession e, s_updatedAt = nowSession e\<rparr>]"
      and c: "\<forall>r. fst (sendMessage rv svc e usr dto w) = Inr r \<longrightarrow> res_sessionId r = genSessionId e"
      using sendMessage_sessions[OF key res, of rv] by (simp_all add: insertSession_def)
    have b: "\<exists>extra.
           chatMessages (db (snd (sendMessage rv svc e usr dto w))) =
             chatMessages (db w) @
               \<lparr>m_id = genUserMessageId e, m_sessionId = genSessionId e, m_role = ''user'',
                 m_content = message dto, m_createdAt = nowUserMessage e\<rparr> # extra \<and>
           (\<forall>m \<in> set extra. m_sessionId m = genSessionId e)"
      using sendMessage_messages[OF key res, of rv] by (simp add: insertSession_def userMessageOf_def)
    show "sessions (db (snd (sendMessage rv svc e usr dto w))) =
          sessions (db w) @
            [\<lparr>s_id = genSessionId e, s_userId = u_id usr, s_title = newSessionTitle (message dto),
              s_createdAt = nowSession e, s_updatedAt = nowSession e\<rparr>] \<and>
        (\<exists>extra.
           chatMessages (db (snd (sendMessage rv svc e usr dto w))) =
             chatMessages (db w) @
               \<lparr>m_id = genUserMessageId e, m_sessionId = genSessionId e, m_role = ''user'',
                 m_content = message dto, m_createdAt = nowUserMessage e\<rparr> # extra \<and>
           (\<forall>m \<in> set extra. m_sessionId m = genSessionId e)) \<and>
        (\<forall>r. fst (sendMessage rv svc e usr dto w) = Inr r \<longrightarrow> res_sessionId r = genSessionId e)"
      by (rule conjI[OF a conjI[OF b c]])
  qed
  show ?thesis
    by (rule conjI[OF c1 conjI[OF c2 conjI[OF c2' conjI[OF c3 conjI[OF c4 conjI[OF c5 conjI[OF c6 c7]]]]]]])
qed


theorem foreign_session_untouched_witness:
  "distinct (map s_id (sessions (db world0))) \<and>
   genSessionId (env0 TimedOut) \<notin> set (map s_id (sessions (db world0))) \<and>
   bobSession \<in> set (sessions (db world0)) \<and>
   s_userId bobSession \<noteq> u_id alice \<and>
   getSession (u_id alice) (s_id bobSession) (db world0) = None \<and>
   deleteSession (u_id alice) (s_id bobSession) world0 = (None, world0) \<and>
   filter (\<lambda>m. m_sessionId m = s_id bobSession)
       (chatMessages (db (snd (sendMessage Sanitizing service0 (env0 TimedOut) alice dtoForeign world0)))) =
     filter (\<lambda>m. m_sessionId m = s_id bobSession) (chatMessages (db world0)) \<and>
   sessions (db (snd (sendMessage Sanitizing service0 (env0 TimedOut) alice dtoForeign world0))) =
     sessions (db world0) @
       [\<lparr>s_id = genSessionId (env0 TimedOut), s_userId = u_id alice,
         s_title = newSessionTitle (message dtoForeign),
         s_createdAt = nowSession (env0 TimedOut), s_updatedAt = nowSession (env0 TimedOut)\<rparr>] \<and>
   map (map p_content \<circ> r_messages)
       (requestsOf (trace (snd (sendMessage Sanitizing service0 (env0 TimedOut) alice dtoForeign world0)))) =
     [[systemPrompt Sanitizing, ''peek'']]"
proof -
  have h1: "distinct (map s_id (sessions (db world0)))"
    by (simp add: world0_def)
  have h2: "genSessionId (env0 TimedOut) \<notin> set (map s_id (sessions (db world0)))"
    by (simp add: world0_def env0_def)
  have h3: "bobSession \<in> set (sessions (db world0))"
    by (simp add: world0_def bobSession_def)
  have h4: "s_userId bobSession \<noteq> u_id alice"
    by (simp add: bobSession_def alice_def)
  have k: "openRouterApiKey service0 \<noteq> []"
    by (simp add: service0_def newChatService_def)
  have g: "sessionId dtoForeign = Some (s_id bobSession)"
    by (simp add: dtoForeign_def bobSession_def)
  note t = foreign_session_untouched[OF h1 h2 h3 h4, of "''sa''" Sanitizing service0 dtoForeign]
  note a = t[THEN conjunct2, THEN conjunct1]
  note b = t[THEN conjunct2, THEN conjunct2, THEN conjunct2, THEN conjunct1]
  note c = t[THEN conjunct2, THEN conjunct2, THEN conjunct2, THEN conjunct2, THEN conjunct2,
      THEN conjunct1, THEN conjunct2, THEN conjunct1]
  note d = t[THEN conjunct2, THEN conjunct2, THEN conjunct2, THEN conjunct2, THEN conjunct2,
      THEN conjunct2, THEN conjunct2, THEN mp, OF conjI[OF k g], THEN conjunct1]
  have sid: "fst (resolveSession (env0 TimedOut) alice dtoForeign world0) = ''s-new''"
    by (simp add: resolveSession_def dtoForeign_def findFirstSession_def world0_def alice_def
        createSession_def env0_def Let_def)
  have ctx: "loadDocumentsContext (env0 TimedOut) dtoForeign (db world0) = []"
    by (simp add: loadDocumentsContext_def dtoForeign_def)
  have sent: "map r_messages
       (requestsOf (trace (snd (sendMessage Sanitizing service0 (env0 TimedOut) alice dtoForeign world0)))) =
     [[\<lparr>p_role = ''system'', p_content = systemPrompt Sanitizing\<rparr>,
       \<lparr>p_role = ''user'', p_content = ''peek''\<rparr>]]"
    using t[THEN conjunct2, THEN conjunct2, THEN conjunct2, THEN conjunct2, THEN conjunct2,
      THEN conjunct2, THEN conjunct1, THEN mp, OF k]
    unfolding Let_def sid ctx
    by (simp add: world0_def msg_def dtoForeign_def env0_def)
  have e: "map (map p_content \<circ> r_messages)
       (requestsOf (trace (snd (sendMessage Sanitizing service0 (env0 TimedOut) alice dtoForeign world0)))) =
     [[systemPrompt Sanitizing, ''peek'']]"
    unfolding map_map[symmetric] sent by simp
  show ?thesis
    by (intro conjI h1 h2 h3 h4 a b c d e)
qed

end
